theory Spec2Isabelle
  imports Complex_Main "HOL-Library.Word"
begin

section \<open>Registration notebook of the ultrasound / microscopy fiducial phantom\<close>

text \<open>
  The analysis notebook defines six functions: \<open>open_us\<close>, \<open>open_mpm\<close>,
  \<open>rotate_axes_to_microscope\<close>, \<open>positions_from_ometif\<close>, \<open>get_xy_origin\<close> and
  \<open>apply_transform\<close>. They are embedded below, together with the small part of NumPy
  and SimpleITK that they call. Intensities are integer samples; coordinates, spacings
  and transform parameters are real numbers (the doubles of the program, without rounding).
\<close>

subsection \<open>Python errors\<close>

datatype py_error = KeyError | IndexError | TypeError | ValueError | RuntimeError | IOError

subsection \<open>NumPy: three-dimensional arrays\<close>

text \<open>
  An array carries its shape \<open>(d0, d1, d2)\<close> and its elements as nested lists in index
  order: element \<open>[i, j, k]\<close> is \<open>elems a ! i ! j ! k\<close>.
\<close>

record 'a ndarray3 =
  shape :: "nat \<times> nat \<times> nat"
  elems :: "'a list list list"

definition wf_ndarray3 :: "'a ndarray3 \<Rightarrow> bool" where
  "wf_ndarray3 a =
     (case shape a of (d0, d1, d2) \<Rightarrow>
        length (elems a) = d0 \<and>
        list_all (\<lambda>p. length p = d1 \<and> list_all (\<lambda>r. length r = d2) p) (elems a))"

definition item3 :: "'a ndarray3 \<Rightarrow> nat \<Rightarrow> nat \<Rightarrow> nat \<Rightarrow> 'a" where
  "item3 a i j k = elems a ! i ! j ! k"

definition tabulate3 :: "nat \<times> nat \<times> nat \<Rightarrow> (nat \<Rightarrow> nat \<Rightarrow> nat \<Rightarrow> 'a) \<Rightarrow> 'a ndarray3" where
  "tabulate3 s f =
     (case s of (d0, d1, d2) \<Rightarrow>
        \<lparr>shape = (d0, d1, d2),
         elems = map (\<lambda>i. map (\<lambda>j. map (\<lambda>k. f i j k) [0..<d2]) [0..<d1]) [0..<d0]\<rparr>)"

text \<open>\<open>np.swapaxes(arr, 0, 1)\<close>: shape \<open>(d1, d0, d2)\<close>, element \<open>[i, j, k]\<close> is \<open>arr[j, i, k]\<close>.\<close>

definition swapaxes_0_1 :: "'a ndarray3 \<Rightarrow> 'a ndarray3" where
  "swapaxes_0_1 a =
     (case shape a of (d0, d1, d2) \<Rightarrow> tabulate3 (d1, d0, d2) (\<lambda>i j k. item3 a j i k))"

text \<open>\<open>np.flip(arr, 0)\<close> reverses the order along the first axis.\<close>

definition flip_0 :: "'a ndarray3 \<Rightarrow> 'a ndarray3" where
  "flip_0 a = \<lparr>shape = shape a, elems = rev (elems a)\<rparr>"

text \<open>\<open>np.flip(arr, 1)\<close> reverses the order along the second axis.\<close>

definition flip_1 :: "'a ndarray3 \<Rightarrow> 'a ndarray3" where
  "flip_1 a = \<lparr>shape = shape a, elems = map rev (elems a)\<rparr>"

definition map_ndarray3 :: "('a \<Rightarrow> 'b) \<Rightarrow> 'a ndarray3 \<Rightarrow> 'b ndarray3" where
  "map_ndarray3 f a = \<lparr>shape = shape a, elems = map (map (map f)) (elems a)\<rparr>"

text \<open>
  \<open>arr.astype(np.uint8)\<close> on integer samples keeps the low eight bits
  (\<open>300\<close> becomes \<open>44\<close>, \<open>-1\<close> becomes \<open>255\<close>).
\<close>

definition astype_uint8 :: "int ndarray3 \<Rightarrow> 8 word ndarray3" where
  "astype_uint8 a = map_ndarray3 word_of_int a"

subsection \<open>SimpleITK: images\<close>

datatype pixel_id = sitkUInt8 | sitkInt8 | sitkUInt16 | sitkInt16 | sitkUInt32 | sitkInt32

text \<open>
  An image holds its samples in the order of \<open>GetArrayFromImage\<close> (slowest axis first:
  \<open>buffer[z, y, x]\<close>), the sample type, and the physical metadata: spacing and origin
  (three numbers), direction cosines (nine numbers, row by row).
\<close>

record image =
  buffer :: "int ndarray3"
  pixel :: pixel_id
  spacing :: "real list"
  origin :: "real list"
  direction :: "real list"

definition GetArrayFromImage :: "image \<Rightarrow> int ndarray3" where
  "GetArrayFromImage img = buffer img"

text \<open>
  \<open>GetImageFromArray\<close> of a \<open>uint8\<close> array: a new image of sample type \<open>sitkUInt8\<close>
  with unit spacing, zero origin and identity direction.
\<close>

definition GetImageFromArray :: "8 word ndarray3 \<Rightarrow> image" where
  "GetImageFromArray a =
     \<lparr>buffer = map_ndarray3 uint a, pixel = sitkUInt8,
      spacing = [1, 1, 1], origin = [0, 0, 0],
      direction = [1, 0, 0, 0, 1, 0, 0, 0, 1]\<rparr>"

subsection \<open>The notebook: \<open>rotate_axes_to_microscope\<close>\<close>

definition rotate_axes_to_microscope :: "image \<Rightarrow> image" where
  "rotate_axes_to_microscope img =
     (let arr = GetArrayFromImage img;
          arr_rot = swapaxes_0_1 arr;
          arr_rot = astype_uint8 (flip_0 arr_rot)
      in GetImageFromArray arr_rot)"

subsection \<open>Failing computations\<close>

definition bind_err :: "py_error + 'a \<Rightarrow> ('a \<Rightarrow> py_error + 'b) \<Rightarrow> py_error + 'b" where
  "bind_err m f = (case m of Inl e \<Rightarrow> Inl e | Inr x \<Rightarrow> f x)"

subsection \<open>Python values read from metadata files\<close>

text \<open>
  The values that \<open>tifffile.xml2dict\<close> and a JSON reader produce. A dictionary keeps
  its entries in order, with string keys.
\<close>

datatype pyval =
    PNone
  | PBool bool
  | PInt int
  | PFloat real
  | PStr string
  | PList "pyval list"
  | PDict "(string \<times> pyval) list"

text \<open>\<open>v[key]\<close> for a string key.\<close>

fun getitem_str :: "pyval \<Rightarrow> string \<Rightarrow> py_error + pyval" where
  "getitem_str (PDict kvs) key =
     (case map_of kvs key of None \<Rightarrow> Inl KeyError | Some v \<Rightarrow> Inr v)"
| "getitem_str v key = Inl TypeError"

text \<open>\<open>v[0]\<close>.\<close>

fun getitem_0 :: "pyval \<Rightarrow> py_error + pyval" where
  "getitem_0 (PList xs) = (case xs of [] \<Rightarrow> Inl IndexError | x # _ \<Rightarrow> Inr x)"
| "getitem_0 (PStr s) = (case s of [] \<Rightarrow> Inl IndexError | c # _ \<Rightarrow> Inr (PStr [c]))"
| "getitem_0 (PDict kvs) = Inl KeyError"
| "getitem_0 v = Inl TypeError"

text \<open>
  \<open>for x in v\<close>: a list yields its elements, a dictionary its keys, a string its
  characters; nothing else can be iterated.
\<close>

fun py_iter :: "pyval \<Rightarrow> py_error + pyval list" where
  "py_iter (PList xs) = Inr xs"
| "py_iter (PDict kvs) = Inr (map (\<lambda>kv. PStr (fst kv)) kvs)"
| "py_iter (PStr s) = Inr (map (\<lambda>c. PStr [c]) s)"
| "py_iter v = Inl TypeError"

subsection \<open>SimpleITK: setting the physical metadata\<close>

text \<open>
  The direction matrix is stored row by row; \<open>det3\<close> is its determinant and
  \<open>orthonormal3\<close> says that the product with its transpose is the identity.
\<close>

definition det3 :: "real list \<Rightarrow> real" where
  "det3 m =
     m ! 0 * (m ! 4 * m ! 8 - m ! 5 * m ! 7)
     - m ! 1 * (m ! 3 * m ! 8 - m ! 5 * m ! 6)
     + m ! 2 * (m ! 3 * m ! 7 - m ! 4 * m ! 6)"

definition row3 :: "real list \<Rightarrow> nat \<Rightarrow> real list" where
  "row3 m i = [m ! (3 * i), m ! (3 * i + 1), m ! (3 * i + 2)]"

definition dot3 :: "real list \<Rightarrow> real list \<Rightarrow> real" where
  "dot3 u v = u ! 0 * v ! 0 + u ! 1 * v ! 1 + u ! 2 * v ! 2"

definition orthonormal3 :: "real list \<Rightarrow> bool" where
  "orthonormal3 m =
     (length m = 9 \<and>
      list_all (\<lambda>i. list_all (\<lambda>j. dot3 (row3 m i) (row3 m j) = (if i = j then 1 else 0))
                  [0, 1, 2]) [0, 1, 2])"

text \<open>
  A sequence handed to SimpleITK is a Python list or a NumPy array. Its items are Python
  objects, NumPy scalars of some type, or, for an array of more than one dimension,
  arrays again.
\<close>

datatype np_dtype = np_bool | np_int64 | np_float64

datatype seq_item = Item pyval | NpScalar np_dtype real | NpSubArray

text \<open>
  SimpleITK turns each item into a double. It takes Python floats, integers and
  booleans, and NumPy's \<open>float64\<close>, which is a Python float; every other item, a NumPy
  integer among them, is a \<open>TypeError\<close>.
\<close>

fun sitk_double :: "seq_item \<Rightarrow> real option" where
  "sitk_double (Item (PInt i)) = Some (of_int i)"
| "sitk_double (Item (PFloat r)) = Some r"
| "sitk_double (Item (PBool b)) = Some (if b then 1 else 0)"
| "sitk_double (NpScalar np_float64 r) = Some r"
| "sitk_double x = None"

definition sitk_vector :: "seq_item list \<Rightarrow> real list option" where
  "sitk_vector xs =
     (if list_all (\<lambda>x. sitk_double x \<noteq> None) xs then Some (map (\<lambda>x. the (sitk_double x)) xs)
      else None)"

text \<open>
  Each setter changes one field of the image it is called on. Of a sequence longer than
  the dimension of the image the first three numbers are used; a shorter one is refused.
  A spacing must be positive along every axis, and a direction matrix must have nine
  entries and be regular.
\<close>

definition SetSpacing :: "image \<Rightarrow> seq_item list \<Rightarrow> py_error + image" where
  "SetSpacing img sp =
     (case sitk_vector sp of
        None \<Rightarrow> Inl TypeError
      | Some v \<Rightarrow>
          if length v < 3 then Inl RuntimeError
          else if list_ex (\<lambda>s. s \<le> 0) (take 3 v) then Inl RuntimeError
          else Inr (img\<lparr>spacing := take 3 v\<rparr>))"

definition SetOrigin :: "image \<Rightarrow> seq_item list \<Rightarrow> py_error + image" where
  "SetOrigin img org =
     (case sitk_vector org of
        None \<Rightarrow> Inl TypeError
      | Some v \<Rightarrow>
          if length v < 3 then Inl RuntimeError else Inr (img\<lparr>origin := take 3 v\<rparr>))"

definition SetDirection :: "image \<Rightarrow> real list \<Rightarrow> py_error + image" where
  "SetDirection img d =
     (if length d \<noteq> 9 \<or> det3 d = 0 then Inl RuntimeError
      else Inr (img\<lparr>direction := d\<rparr>))"

subsection \<open>NumPy: arrays from nested lists, minimum along the first axis\<close>

text \<open>
  \<open>np.array\<close> reads a nested list as an array when the nesting is even: the shape of a
  value that is not a list is empty, and a list has a shape when all its elements have
  one and the same shape.
\<close>

fun shape_join :: "nat list option list \<Rightarrow> nat list option" where
  "shape_join [] = Some [0]"
| "shape_join (None # ss) = None"
| "shape_join (Some t # ss) =
     (if list_all (\<lambda>u. u = Some t) ss then Some (Suc (length ss) # t) else None)"

fun py_shape :: "pyval \<Rightarrow> nat list option" where
  "py_shape (PList xs) = shape_join (map py_shape xs)"
| "py_shape v = Some []"

definition np_homogeneous :: "pyval list \<Rightarrow> bool" where
  "np_homogeneous vs =
     (case map py_shape vs of [] \<Rightarrow> True | s # ss \<Rightarrow> s \<noteq> None \<and> list_all (\<lambda>u. u = s) ss)"

fun py_leaves :: "pyval \<Rightarrow> pyval list" where
  "py_leaves (PList xs) = concat (map py_leaves xs)"
| "py_leaves v = [v]"

fun py_scalar :: "pyval \<Rightarrow> bool" where
  "py_scalar (PList xs) = False"
| "py_scalar v = True"

text \<open>
  The type of the array follows from its entries: objects (\<open>None\<close>, dictionaries) make
  an array of objects, otherwise strings an array of strings, otherwise a float an
  array of \<open>float64\<close>, otherwise an integer an array of \<open>int64\<close>, and booleans alone an
  array of booleans. An array without entries is of type \<open>float64\<close>.
\<close>

fun py_object :: "pyval \<Rightarrow> bool" where
  "py_object PNone = True"
| "py_object (PDict kvs) = True"
| "py_object v = False"

fun py_string :: "pyval \<Rightarrow> bool" where
  "py_string (PStr s) = True"
| "py_string v = False"

fun py_float :: "pyval \<Rightarrow> bool" where
  "py_float (PFloat r) = True"
| "py_float v = False"

fun py_int :: "pyval \<Rightarrow> bool" where
  "py_int (PInt i) = True"
| "py_int v = False"

definition np_result_type :: "pyval list \<Rightarrow> np_dtype" where
  "np_result_type vs =
     (if list_ex py_float vs then np_float64
      else if list_ex py_int vs then np_int64
      else if vs = [] then np_float64 else np_bool)"

fun py_number :: "pyval \<Rightarrow> real option" where
  "py_number (PInt i) = Some (of_int i)"
| "py_number (PFloat r) = Some r"
| "py_number (PBool b) = Some (if b then 1 else 0)"
| "py_number v = None"

definition min_rows :: "real list \<Rightarrow> real list \<Rightarrow> real list" where
  "min_rows u v = map (\<lambda>p. min (fst p) (snd p)) (zip u v)"

text \<open>
  The result of a reduction along the first axis: a vector of numbers with its type, a
  vector of objects, or an array that still has more than one dimension, of which only
  the length is kept.
\<close>

datatype ndarray1 = NumArray np_dtype "real list" | ObjectArray "pyval list" | NestedArray nat

fun array_items :: "ndarray1 \<Rightarrow> seq_item list" where
  "array_items (NumArray t vs) = map (NpScalar t) vs"
| "array_items (ObjectArray xs) = map Item xs"
| "array_items (NestedArray n) = replicate n NpSubArray"

text \<open>
  \<open>np.min(rows, 0)\<close> of a sequence of rows: the minimum of each column. An empty
  sequence has no minimum (\<open>ValueError\<close>); rows of different lengths or with unevenly
  nested entries do not form an array (\<open>ValueError\<close>). Strings cannot be reduced
  (\<open>TypeError\<close>). Objects cannot be compared (\<open>TypeError\<close>), but a single row needs no
  comparison and is returned as it is.
\<close>

definition np_min_axis0 :: "pyval list list \<Rightarrow> py_error + ndarray1" where
  "np_min_axis0 rows =
     (case rows of
        [] \<Rightarrow> Inl ValueError
      | r # rs \<Rightarrow>
          if \<not> list_all (\<lambda>q. length q = length r) rs \<or> \<not> np_homogeneous (concat rows)
          then Inl ValueError
          else
            let leaves = concat (map py_leaves (concat rows)) in
            if list_ex py_object leaves then
              (if rs = [] then Inr (if list_all py_scalar r then ObjectArray r
                                    else NestedArray (length r))
               else Inl TypeError)
            else if list_ex py_string leaves then Inl TypeError
            else if list_all py_scalar (concat rows) then
              Inr (NumArray (np_result_type leaves)
                     (foldl min_rows (map (\<lambda>v. the (py_number v)) r)
                        (map (map (\<lambda>v. the (py_number v))) rs)))
            else Inr (NestedArray (length r)))"

subsection \<open>The notebook: metadata\<close>

text \<open>
  \<open>positions_from_ometif\<close>. Reading the \<open>ImageDescription\<close> tag of the file and
  \<open>tifffile.xml2dict\<close> are the parameters \<open>GetMetaData\<close> and \<open>xml2dict\<close>. The three
  coordinates of a tile are made an array, and so is the list of all rows at the end;
  the result is kept as the rows of that array.
\<close>

definition position_row :: "pyval \<Rightarrow> py_error + pyval list" where
  "position_row position =
     bind_err (bind_err (getitem_str position ''StageLabel'') (\<lambda>l. getitem_str l ''X''))
       (\<lambda>x.
     bind_err (bind_err (getitem_str position ''StageLabel'') (\<lambda>l. getitem_str l ''Y''))
       (\<lambda>y.
     bind_err (bind_err (bind_err (bind_err (getitem_str position ''Pixels'')
                 (\<lambda>p. getitem_str p ''Plane'')) getitem_0)
                 (\<lambda>p. getitem_str p ''PositionZ''))
       (\<lambda>z. if np_homogeneous [x, y, z] then Inr [x, y, z] else Inl ValueError)))"

fun position_rows :: "pyval list \<Rightarrow> pyval list list \<Rightarrow> py_error + pyval list list" where
  "position_rows [] mpm_list = Inr mpm_list"
| "position_rows (position # rest) mpm_list =
     bind_err (position_row position) (\<lambda>row. position_rows rest (mpm_list @ [row]))"

definition positions_from_ometif ::
  "(string \<Rightarrow> py_error + string) \<Rightarrow> (string \<Rightarrow> py_error + pyval) \<Rightarrow> string \<Rightarrow>
   py_error + pyval list list" where
  "positions_from_ometif GetMetaData xml2dict file_path =
     bind_err (GetMetaData file_path) (\<lambda>raw_info.
     bind_err (xml2dict raw_info) (\<lambda>info.
     bind_err (bind_err (bind_err (getitem_str info ''OME'') (\<lambda>d. getitem_str d ''Image''))
                 py_iter) (\<lambda>positions.
     bind_err (position_rows positions []) (\<lambda>mpm_list.
     if np_homogeneous (concat mpm_list) then Inr mpm_list else Inl ValueError))))"

text \<open>
  \<open>get_xy_origin\<close>. \<open>util.read_json\<close> and \<open>recon.clean_position_text\<close> belong to
  another package and are parameters; the second returns a pair whose first component
  is the list of positions.
\<close>

definition get_xy_origin ::
  "(string \<Rightarrow> py_error + pyval) \<Rightarrow> (pyval \<Rightarrow> py_error + pyval list list \<times> 'l) \<Rightarrow> string \<Rightarrow>
   py_error + ndarray1" where
  "get_xy_origin read_json clean_position_text pl_path =
     bind_err (read_json pl_path) (\<lambda>raw_pos_list.
     bind_err (clean_position_text raw_pos_list) (\<lambda>cleaned.
     let pos_list = fst cleaned in np_min_axis0 pos_list))"

subsection \<open>The notebook: opening the images\<close>

text \<open>
  \<open>sitk.ReadImage\<close> and \<open>proc.window_image\<close> are the parameters \<open>ReadImage\<close> and
  \<open>window_image\<close>. The direction is the list \<open>[1, 0, 0, 0, 1, 0, 0, 0, -1]\<close> of the
  source in both functions.
\<close>

definition open_us ::
  "(string \<Rightarrow> py_error + image) \<Rightarrow> (image \<Rightarrow> real \<Rightarrow> py_error + image) \<Rightarrow>
   string \<Rightarrow> real \<Rightarrow> seq_item list \<Rightarrow> seq_item list \<Rightarrow> py_error + image" where
  "open_us ReadImage window_image us_path dynamic_range sp org =
     bind_err (ReadImage us_path) (\<lambda>raw_image.
     bind_err (window_image raw_image dynamic_range) (\<lambda>windowed_image.
     let us_image = rotate_axes_to_microscope windowed_image in
     bind_err (SetSpacing us_image sp) (\<lambda>us_image.
     bind_err (SetOrigin us_image org) (\<lambda>us_image.
     SetDirection us_image [1, 0, 0, 0, 1, 0, 0, 0, -1]))))"

definition open_mpm ::
  "(string \<Rightarrow> py_error + image) \<Rightarrow> (string \<Rightarrow> py_error + string) \<Rightarrow>
   (string \<Rightarrow> py_error + pyval) \<Rightarrow> string \<Rightarrow> string \<Rightarrow> seq_item list \<Rightarrow>
   py_error + image" where
  "open_mpm ReadImage GetMetaData xml2dict mpm_path mpm_origin_path mpm_spacing =
     bind_err (positions_from_ometif GetMetaData xml2dict mpm_origin_path) (\<lambda>positions.
     bind_err (np_min_axis0 positions) (\<lambda>org.
     bind_err (ReadImage mpm_path) (\<lambda>mpm_image.
     bind_err (SetSpacing mpm_image mpm_spacing) (\<lambda>mpm_image.
     bind_err (SetOrigin mpm_image (array_items org)) (\<lambda>mpm_image.
     SetDirection mpm_image [1, 0, 0, 0, 1, 0, 0, 0, -1])))))"

subsection \<open>SimpleITK: the versor rigid transform\<close>

text \<open>
  A rigid transform is a centre of rotation, a rotation matrix (row by row) and a
  translation: a point \<open>p\<close> is mapped to \<open>M (p - c) + c + t\<close>. A new transform is the
  identity with its centre at the origin.
\<close>

record transform =
  center :: "real list"
  matrix :: "real list"
  translation :: "real list"

definition VersorRigid3DTransform :: transform where
  "VersorRigid3DTransform =
     \<lparr>center = [0, 0, 0], matrix = [1, 0, 0, 0, 1, 0, 0, 0, 1], translation = [0, 0, 0]\<rparr>"

text \<open>
  The first three parameters are the vector part of the versor. A vector whose norm
  reaches \<open>1 - 1e-10\<close> is scaled back into the unit ball before it is used.
\<close>

definition versor_axis :: "real list \<Rightarrow> real list" where
  "versor_axis ps =
     (let norm = sqrt (ps ! 0 * ps ! 0 + ps ! 1 * ps ! 1 + ps ! 2 * ps ! 2);
          epsilon = 1 / 10 ^ 10
      in if norm \<ge> 1 - epsilon
         then [ps ! 0 / (norm + epsilon * norm), ps ! 1 / (norm + epsilon * norm),
               ps ! 2 / (norm + epsilon * norm)]
         else [ps ! 0, ps ! 1, ps ! 2])"

text \<open>The scalar part of the versor is implied by the unit norm; the matrix follows.\<close>

definition versor_matrix :: "real list \<Rightarrow> real list" where
  "versor_matrix axis =
     (let vx = axis ! 0; vy = axis ! 1; vz = axis ! 2;
          vw = sqrt (1 - (vx * vx + vy * vy + vz * vz));
          xx = vx * vx; yy = vy * vy; zz = vz * vz;
          xy = vx * vy; xz = vx * vz; xw = vx * vw;
          yz = vy * vz; yw = vy * vw; zw = vz * vw
      in [1 - 2 * (yy + zz), 2 * (xy - zw), 2 * (xz + yw),
          2 * (xy + zw), 1 - 2 * (xx + zz), 2 * (yz - xw),
          2 * (xz - yw), 2 * (yz + xw), 1 - 2 * (xx + yy)])"

text \<open>
  \<open>SetParameters\<close> takes a vector of \<open>float64\<close> with at least six numbers, of which it
  uses the first six, the versor and the translation, and leaves the centre as it is.
\<close>

definition SetParameters :: "transform \<Rightarrow> real list \<Rightarrow> py_error + transform" where
  "SetParameters t ps =
     (if length ps < 6 then Inl RuntimeError
      else Inr (t\<lparr>matrix := versor_matrix (versor_axis ps),
                  translation := [ps ! 3, ps ! 4, ps ! 5]\<rparr>))"

definition mat_vec :: "real list \<Rightarrow> real list \<Rightarrow> real list" where
  "mat_vec m v = [dot3 (row3 m 0) v, dot3 (row3 m 1) v, dot3 (row3 m 2) v]"

definition vec_add :: "real list \<Rightarrow> real list \<Rightarrow> real list" where
  "vec_add u v = [u ! 0 + v ! 0, u ! 1 + v ! 1, u ! 2 + v ! 2]"

definition vec_sub :: "real list \<Rightarrow> real list \<Rightarrow> real list" where
  "vec_sub u v = [u ! 0 - v ! 0, u ! 1 - v ! 1, u ! 2 - v ! 2]"

definition TransformPoint :: "transform \<Rightarrow> real list \<Rightarrow> real list" where
  "TransformPoint t p =
     vec_add (vec_add (mat_vec (matrix t) (vec_sub p (center t))) (center t)) (translation t)"

text \<open>\<open>c * params\<close> on a NumPy vector.\<close>

definition np_scale :: "real \<Rightarrow> real list \<Rightarrow> real list" where
  "np_scale c ps = map (\<lambda>x. c * x) ps"

text \<open>
  For comparison, the inverse of a rigid transform \<open>(R, t)\<close> as mathematics has it:
  \<open>(R\<^sup>T, - R\<^sup>T t)\<close>, about the same centre.
\<close>

definition transpose3 :: "real list \<Rightarrow> real list" where
  "transpose3 m = [m ! 0, m ! 3, m ! 6, m ! 1, m ! 4, m ! 7, m ! 2, m ! 5, m ! 8]"

definition exact_inverse :: "transform \<Rightarrow> transform" where
  "exact_inverse t =
     \<lparr>center = center t,
      matrix = transpose3 (matrix t),
      translation = vec_sub [0, 0, 0] (mat_vec (transpose3 (matrix t)) (translation t))\<rparr>"

subsection \<open>SimpleITK: resampling\<close>

text \<open>The size of an image is listed fastest axis first: \<open>(nx, ny, nz)\<close>.\<close>

definition GetSize :: "image \<Rightarrow> nat \<times> nat \<times> nat" where
  "GetSize img = (case shape (buffer img) of (nz, ny, nx) \<Rightarrow> (nx, ny, nz))"

definition GetPixelID :: "image \<Rightarrow> pixel_id" where
  "GetPixelID img = pixel img"

definition GetPixel :: "image \<Rightarrow> nat \<Rightarrow> nat \<Rightarrow> nat \<Rightarrow> int" where
  "GetPixel img x y z = item3 (buffer img) z y x"

definition TransformIndexToPhysicalPoint :: "image \<Rightarrow> real list \<Rightarrow> real list" where
  "TransformIndexToPhysicalPoint img idx =
     vec_add (origin img)
       (mat_vec (direction img)
          [spacing img ! 0 * idx ! 0, spacing img ! 1 * idx ! 1, spacing img ! 2 * idx ! 2])"

definition inverse3 :: "real list \<Rightarrow> real list" where
  "inverse3 m =
     (let d = det3 m
      in [(m ! 4 * m ! 8 - m ! 5 * m ! 7) / d, (m ! 2 * m ! 7 - m ! 1 * m ! 8) / d,
          (m ! 1 * m ! 5 - m ! 2 * m ! 4) / d,
          (m ! 5 * m ! 6 - m ! 3 * m ! 8) / d, (m ! 0 * m ! 8 - m ! 2 * m ! 6) / d,
          (m ! 2 * m ! 3 - m ! 0 * m ! 5) / d,
          (m ! 3 * m ! 7 - m ! 4 * m ! 6) / d, (m ! 1 * m ! 6 - m ! 0 * m ! 7) / d,
          (m ! 0 * m ! 4 - m ! 1 * m ! 3) / d])"

definition TransformPhysicalPointToContinuousIndex :: "image \<Rightarrow> real list \<Rightarrow> real list" where
  "TransformPhysicalPointToContinuousIndex img p =
     (let v = mat_vec (inverse3 (direction img)) (vec_sub p (origin img))
      in [v ! 0 / spacing img ! 0, v ! 1 / spacing img ! 1, v ! 2 / spacing img ! 2])"

text \<open>
  A continuous index lies in the support of an image when every coordinate is within
  half a voxel of the grid.
\<close>

definition IsInsideBuffer :: "image \<Rightarrow> real list \<Rightarrow> bool" where
  "IsInsideBuffer img c =
     (case GetSize img of (nx, ny, nz) \<Rightarrow>
        - (1 / 2) \<le> c ! 0 \<and> c ! 0 < real nx - 1 / 2 \<and>
        - (1 / 2) \<le> c ! 1 \<and> c ! 1 < real ny - 1 / 2 \<and>
        - (1 / 2) \<le> c ! 2 \<and> c ! 2 < real nz - 1 / 2)"

datatype interpolator = sitkNearestNeighbor | sitkLinear

text \<open>
  Linear interpolation along one axis of \<open>n\<close> voxels at the coordinate \<open>c\<close>: the value
  between the voxel below and the voxel above, where the voxel below is not before the
  first voxel and the voxel above not beyond the last one.
\<close>

definition axis_interpolate :: "nat \<Rightarrow> real \<Rightarrow> (nat \<Rightarrow> real) \<Rightarrow> real" where
  "axis_interpolate n c g =
     (let x0 = nat \<lfloor>c\<rfloor>;
          f = max 0 (c - real x0);
          x1 = min (x0 + 1) (n - 1)
      in (1 - f) * g x0 + f * g x1)"

text \<open>In three dimensions the interpolation runs along each axis in turn.\<close>

definition linear_interpolate :: "image \<Rightarrow> real list \<Rightarrow> real" where
  "linear_interpolate img c =
     (case GetSize img of (nx, ny, nz) \<Rightarrow>
        axis_interpolate nz (c ! 2) (\<lambda>z.
        axis_interpolate ny (c ! 1) (\<lambda>y.
        axis_interpolate nx (c ! 0) (\<lambda>x. real_of_int (GetPixel img x y z)))))"

definition nearest_interpolate :: "image \<Rightarrow> real list \<Rightarrow> real" where
  "nearest_interpolate img c =
     real_of_int (GetPixel img (nat \<lfloor>c ! 0 + 1 / 2\<rfloor>) (nat \<lfloor>c ! 1 + 1 / 2\<rfloor>)
                    (nat \<lfloor>c ! 2 + 1 / 2\<rfloor>))"

fun interpolate :: "interpolator \<Rightarrow> image \<Rightarrow> real list \<Rightarrow> real" where
  "interpolate sitkNearestNeighbor img c = nearest_interpolate img c"
| "interpolate sitkLinear img c = linear_interpolate img c"

fun pixel_range :: "pixel_id \<Rightarrow> int \<times> int" where
  "pixel_range sitkUInt8 = (0, 255)"
| "pixel_range sitkInt8 = (-128, 127)"
| "pixel_range sitkUInt16 = (0, 65535)"
| "pixel_range sitkInt16 = (-32768, 32767)"
| "pixel_range sitkUInt32 = (0, 4294967295)"
| "pixel_range sitkInt32 = (-2147483648, 2147483647)"

text \<open>
  A computed value is stored in the output sample type: limited to the range of the
  type, then cut to an integer towards zero.
\<close>

definition cast_pixel :: "pixel_id \<Rightarrow> real \<Rightarrow> int" where
  "cast_pixel pid v =
     (case pixel_range pid of (lo, hi) \<Rightarrow>
        if v < of_int lo then lo
        else if of_int hi < v then hi
        else if v < 0 then - \<lfloor>- v\<rfloor> else \<lfloor>v\<rfloor>)"

text \<open>
  \<open>sitk.Resample(image1, referenceImage, transform, interpolator, defaultPixelValue,
  outputPixelType)\<close>: the output has the grid of the reference image. The centre of each
  output voxel is mapped through the transform into the first image and sampled there,
  or given the default value when it falls outside.
\<close>

definition Resample ::
  "image \<Rightarrow> image \<Rightarrow> transform \<Rightarrow> interpolator \<Rightarrow> real \<Rightarrow> pixel_id \<Rightarrow> image" where
  "Resample image1 referenceImage t interp defaultPixelValue outputPixelType =
     \<lparr>buffer = tabulate3 (shape (buffer referenceImage)) (\<lambda>z y x.
         let p = TransformIndexToPhysicalPoint referenceImage [real x, real y, real z];
             c = TransformPhysicalPointToContinuousIndex image1 (TransformPoint t p)
         in if IsInsideBuffer image1 c
            then cast_pixel outputPixelType (interpolate interp image1 c)
            else cast_pixel outputPixelType defaultPixelValue),
      pixel = outputPixelType,
      spacing = spacing referenceImage,
      origin = origin referenceImage,
      direction = direction referenceImage\<rparr>"





subsection \<open>The notebook: \<open>apply_transform\<close>\<close>

text \<open>
  The arguments of \<open>apply_transform\<close> are Python objects that the caller still holds. The
  objects live in a store: images and parameter vectors (arrays of \<open>float64\<close>, as the
  notebook unpickles them), each addressed by its position.
  A new object is added at the end. The function receives the addresses of its three
  arguments and returns the address of its result with the store it leaves behind.
\<close>

record py_store =
  images :: "image list"
  arrays :: "real list list"

definition valid_args :: "py_store \<Rightarrow> nat \<Rightarrow> nat \<Rightarrow> nat \<Rightarrow> bool" where
  "valid_args s moving_image fixed_image transform_params =
     (moving_image < length (images s) \<and> fixed_image < length (images s) \<and>
      transform_params < length (arrays s))"

definition apply_transform ::
  "py_store \<Rightarrow> nat \<Rightarrow> nat \<Rightarrow> nat \<Rightarrow> py_error + (nat \<times> py_store)" where
  "apply_transform s moving_image fixed_image transform_params =
     (let transform = VersorRigid3DTransform in
      bind_err (SetParameters transform (arrays s ! transform_params)) (\<lambda>transform.
      let reg = Resample (images s ! moving_image) (images s ! fixed_image) transform
                  sitkLinear 0 (GetPixelID (images s ! fixed_image))
      in Inr (length (images s), s\<lparr>images := images s @ [reg]\<rparr>)))"

subsection \<open>Example inputs\<close>

definition wide_sample_image :: image where
  "wide_sample_image =
     \<lparr>buffer = \<lparr>shape = (1, 1, 1), elems = [[[300]]]\<rparr>, pixel = sitkUInt16,
      spacing = [1, 1, 1], origin = [0, 0, 0], direction = [1, 0, 0, 0, 1, 0, 0, 0, 1]\<rparr>"

definition two_slice_image :: image where
  "two_slice_image =
     \<lparr>buffer = \<lparr>shape = (2, 1, 1), elems = [[[1]], [[2]]]\<rparr>, pixel = sitkUInt8,
      spacing = [1, 1, 1], origin = [0, 0, 0], direction = [1, 0, 0, 0, 1, 0, 0, 0, 1]\<rparr>"

definition six_voxel_image :: image where
  "six_voxel_image =
     \<lparr>buffer = \<lparr>shape = (2, 3, 1), elems = [[[1], [2], [3]], [[4], [5], [6]]]\<rparr>,
      pixel = sitkUInt8,
      spacing = [1, 1, 1], origin = [0, 0, 0], direction = [1, 0, 0, 0, 1, 0, 0, 0, 1]\<rparr>"

text \<open>
  A store with two images and one parameter vector: no rotation, a shift of one unit
  along the third axis.
\<close>

definition example_store :: py_store where
  "example_store =
     \<lparr>images = [two_slice_image, wide_sample_image], arrays = [[0, 0, 0, 0, 0, 1]]\<rparr>"



text \<open>The ultrasound spacing and an origin as the notebook passes them.\<close>

definition us_spacing :: "seq_item list" where
  "us_spacing = [Item (PInt 25), Item (PInt 25), Item (PInt 25)]"

definition tendon_origin :: "seq_item list" where
  "tendon_origin = [NpScalar np_float64 0, NpScalar np_float64 0, Item (PInt 4)]"

text \<open>A tile descriptor with one tile, as \<open>xml2dict\<close> returns it.\<close>

definition one_tile_ome :: pyval where
  "one_tile_ome =
     PDict [(''OME'', PDict [(''Image'', PList [
       PDict [(''StageLabel'', PDict [(''X'', PFloat 10), (''Y'', PFloat 20)]),
              (''Pixels'', PDict [(''Plane'', PList [PDict [(''PositionZ'', PInt 3)]])])]])])]"

section \<open>Properties\<close>

subsection \<open>Arrays\<close>

lemma shape_tabulate3: "shape (tabulate3 (d0, d1, d2) f) = (d0, d1, d2)"
  by (simp add: tabulate3_def)

lemma wf_tabulate3: "wf_ndarray3 (tabulate3 (d0, d1, d2) f)"
  by (simp add: tabulate3_def wf_ndarray3_def list_all_iff)

lemma item3_tabulate3:
  "i < d0 \<Longrightarrow> j < d1 \<Longrightarrow> k < d2 \<Longrightarrow> item3 (tabulate3 (d0, d1, d2) f) i j k = f i j k"
  by (simp add: tabulate3_def item3_def)

lemma wf_ndarray3_lengths:
  assumes "wf_ndarray3 a" and "shape a = (d0, d1, d2)"
  shows "length (elems a) = d0"
    and "i < d0 \<Longrightarrow> length (elems a ! i) = d1"
    and "i < d0 \<Longrightarrow> j < d1 \<Longrightarrow> length (elems a ! i ! j) = d2"
  using assms by (auto simp: wf_ndarray3_def list_all_length)

text \<open>Two well-formed arrays of the same shape are equal when their elements are.\<close>

lemma ndarray3_eqI:
  fixes a b :: "'a ndarray3"
  assumes wa: "wf_ndarray3 a" and wb: "wf_ndarray3 b"
    and sa: "shape a = (d0, d1, d2)" and sb: "shape b = (d0, d1, d2)"
    and el: "\<And>i j k. i < d0 \<Longrightarrow> j < d1 \<Longrightarrow> k < d2 \<Longrightarrow> item3 a i j k = item3 b i j k"
  shows "a = b"
proof -
  have "elems a = elems b"
  proof (rule nth_equalityI)
    show "length (elems a) = length (elems b)"
      using wf_ndarray3_lengths(1) [OF wa sa] wf_ndarray3_lengths(1) [OF wb sb] by simp
  next
    fix i assume "i < length (elems a)"
    then have i: "i < d0" using wf_ndarray3_lengths(1) [OF wa sa] by simp
    show "elems a ! i = elems b ! i"
    proof (rule nth_equalityI)
      show "length (elems a ! i) = length (elems b ! i)"
        using wf_ndarray3_lengths(2) [OF wa sa i] wf_ndarray3_lengths(2) [OF wb sb i] by simp
    next
      fix j assume "j < length (elems a ! i)"
      then have j: "j < d1" using wf_ndarray3_lengths(2) [OF wa sa i] by simp
      show "elems a ! i ! j = elems b ! i ! j"
      proof (rule nth_equalityI)
        show "length (elems a ! i ! j) = length (elems b ! i ! j)"
          using wf_ndarray3_lengths(3) [OF wa sa i j] wf_ndarray3_lengths(3) [OF wb sb i j]
          by simp
      next
        fix k assume "k < length (elems a ! i ! j)"
        then have k: "k < d2" using wf_ndarray3_lengths(3) [OF wa sa i j] by simp
        show "elems a ! i ! j ! k = elems b ! i ! j ! k"
          using el [OF i j k] by (simp add: item3_def)
      qed
    qed
  qed
  with sa sb show ?thesis by simp
qed

lemma shape_swapaxes_0_1:
  "shape a = (d0, d1, d2) \<Longrightarrow> shape (swapaxes_0_1 a) = (d1, d0, d2)"
  by (simp add: swapaxes_0_1_def shape_tabulate3)

lemma wf_swapaxes_0_1: "wf_ndarray3 (swapaxes_0_1 a)"
  by (cases "shape a") (simp add: swapaxes_0_1_def wf_tabulate3)

lemma item3_swapaxes_0_1:
  "shape a = (d0, d1, d2) \<Longrightarrow> i < d1 \<Longrightarrow> j < d0 \<Longrightarrow> k < d2 \<Longrightarrow>
   item3 (swapaxes_0_1 a) i j k = item3 a j i k"
  by (simp add: swapaxes_0_1_def item3_tabulate3)

lemma shape_flip_0: "shape (flip_0 a) = shape a"
  by (simp add: flip_0_def)

lemma wf_flip_0: "wf_ndarray3 a \<Longrightarrow> wf_ndarray3 (flip_0 a)"
  by (auto simp: flip_0_def wf_ndarray3_def list_all_iff)

lemma item3_flip_0:
  "wf_ndarray3 a \<Longrightarrow> shape a = (d0, d1, d2) \<Longrightarrow> i < d0 \<Longrightarrow>
   item3 (flip_0 a) i j k = item3 a (d0 - 1 - i) j k"
  by (simp add: flip_0_def item3_def rev_nth wf_ndarray3_lengths(1))

lemma shape_flip_1: "shape (flip_1 a) = shape a"
  by (simp add: flip_1_def)

lemma wf_flip_1: "wf_ndarray3 a \<Longrightarrow> wf_ndarray3 (flip_1 a)"
  by (auto simp: flip_1_def wf_ndarray3_def list_all_iff)

lemma item3_flip_1:
  "wf_ndarray3 a \<Longrightarrow> shape a = (d0, d1, d2) \<Longrightarrow> i < d0 \<Longrightarrow> j < d1 \<Longrightarrow>
   item3 (flip_1 a) i j k = item3 a i (d1 - 1 - j) k"
  by (simp add: flip_1_def item3_def rev_nth wf_ndarray3_lengths(1,2))

lemma shape_map_ndarray3: "shape (map_ndarray3 f a) = shape a"
  by (simp add: map_ndarray3_def)

lemma wf_map_ndarray3: "wf_ndarray3 a \<Longrightarrow> wf_ndarray3 (map_ndarray3 f a)"
  by (auto simp: map_ndarray3_def wf_ndarray3_def list_all_iff)

lemma item3_map_ndarray3:
  "wf_ndarray3 a \<Longrightarrow> shape a = (d0, d1, d2) \<Longrightarrow> i < d0 \<Longrightarrow> j < d1 \<Longrightarrow> k < d2 \<Longrightarrow>
   item3 (map_ndarray3 f a) i j k = f (item3 a i j k)"
  by (simp add: map_ndarray3_def item3_def wf_ndarray3_lengths)

subsection \<open>Rotating the ultrasound axes\<close>

lemma buffer_rotate:
  "buffer (rotate_axes_to_microscope img) =
   map_ndarray3 (\<lambda>v. v mod 256) (flip_0 (swapaxes_0_1 (buffer img)))"
  by (simp add: rotate_axes_to_microscope_def GetArrayFromImage_def GetImageFromArray_def
      astype_uint8_def map_ndarray3_def uint_word_of_int o_def Let_def)

lemma rotate_shape:
  "shape (buffer img) = (d0, d1, d2) \<Longrightarrow>
   shape (buffer (rotate_axes_to_microscope img)) = (d1, d0, d2)"
  by (simp add: buffer_rotate shape_map_ndarray3 shape_flip_0 shape_swapaxes_0_1)

lemma wf_rotate: "wf_ndarray3 (buffer (rotate_axes_to_microscope img))"
  by (simp add: buffer_rotate wf_map_ndarray3 wf_flip_0 wf_swapaxes_0_1)

lemma item3_flip_swapaxes:
  assumes "shape a = (d0, d1, d2)" "i < d1" "j < d0" "k < d2"
  shows "item3 (flip_0 (swapaxes_0_1 a)) i j k = item3 a j (d1 - 1 - i) k"
proof -
  let ?s = "swapaxes_0_1 a"
  have s: "shape ?s = (d1, d0, d2)" using assms(1) by (rule shape_swapaxes_0_1)
  have w: "wf_ndarray3 ?s" by (rule wf_swapaxes_0_1)
  have "item3 (flip_0 ?s) i j k = item3 ?s (d1 - 1 - i) j k"
    using w s assms(2) by (rule item3_flip_0)
  also have "\<dots> = item3 a j (d1 - 1 - i) k"
    using assms by (simp add: item3_swapaxes_0_1)
  finally show ?thesis .
qed

lemma item3_rotate:
  assumes "shape (buffer img) = (d0, d1, d2)" "i < d1" "j < d0" "k < d2"
  shows "item3 (buffer (rotate_axes_to_microscope img)) i j k =
         item3 (buffer img) j (d1 - 1 - i) k mod 256"
proof -
  let ?s = "swapaxes_0_1 (buffer img)"
  have s: "shape ?s = (d1, d0, d2)" using assms(1) by (rule shape_swapaxes_0_1)
  have w: "wf_ndarray3 ?s" by (rule wf_swapaxes_0_1)
  have "item3 (buffer (rotate_axes_to_microscope img)) i j k = item3 (flip_0 ?s) i j k mod 256"
    using assms s w
    by (simp add: buffer_rotate item3_map_ndarray3 [where ?d0.0 = d1 and ?d1.0 = d0 and ?d2.0 = d2]
        wf_flip_0 shape_flip_0)
  also have "item3 (flip_0 ?s) i j k = item3 (buffer img) j (d1 - 1 - i) k"
    using assms by (rule item3_flip_swapaxes)
  finally show ?thesis .
qed

text \<open>
  Claim C9. For an input array of shape \<open>(d0, d1, d2)\<close>, the axis rotation of
  \<open>rotate_axes_to_microscope\<close>, the swap of axes 0 and 1 followed by the flip of axis 0,
  gives an array of shape \<open>(d1, d0, d2)\<close> whose voxel \<open>[i, j, k]\<close> is the input voxel
  \<open>[j, d1 - 1 - i, k]\<close>: a quarter turn in the first two axes, not a mirror image. The
  function returns this array after the cast to \<open>uint8\<close>, which keeps the shape and every
  sample between 0 and 255 and reduces the others modulo 256.
\<close>

theorem rotate_axes_to_microscope_voxels:
  assumes "shape (GetArrayFromImage img) = (d0, d1, d2)"
  shows "shape (flip_0 (swapaxes_0_1 (GetArrayFromImage img))) = (d1, d0, d2) \<and>
         GetArrayFromImage (rotate_axes_to_microscope img) =
           map_ndarray3 uint (astype_uint8 (flip_0 (swapaxes_0_1 (GetArrayFromImage img)))) \<and>
         shape (GetArrayFromImage (rotate_axes_to_microscope img)) = (d1, d0, d2) \<and>
         (\<forall>i<d1. \<forall>j<d0. \<forall>k<d2.
            item3 (flip_0 (swapaxes_0_1 (GetArrayFromImage img))) i j k =
              item3 (GetArrayFromImage img) j (d1 - 1 - i) k \<and>
            item3 (GetArrayFromImage (rotate_axes_to_microscope img)) i j k =
              item3 (GetArrayFromImage img) j (d1 - 1 - i) k mod 256 \<and>
            (0 \<le> item3 (GetArrayFromImage img) j (d1 - 1 - i) k \<and>
             item3 (GetArrayFromImage img) j (d1 - 1 - i) k \<le> 255 \<longrightarrow>
               item3 (GetArrayFromImage (rotate_axes_to_microscope img)) i j k =
               item3 (GetArrayFromImage img) j (d1 - 1 - i) k))"
proof -
  have "GetArrayFromImage (rotate_axes_to_microscope img) =
        map_ndarray3 uint (astype_uint8 (flip_0 (swapaxes_0_1 (GetArrayFromImage img))))"
    by (simp add: rotate_axes_to_microscope_def GetImageFromArray_def GetArrayFromImage_def
        Let_def)
  moreover have "shape (flip_0 (swapaxes_0_1 (GetArrayFromImage img))) = (d1, d0, d2)"
    using assms by (simp add: shape_flip_0 shape_swapaxes_0_1)
  moreover have "shape (GetArrayFromImage (rotate_axes_to_microscope img)) = (d1, d0, d2) \<and>
         (\<forall>i<d1. \<forall>j<d0. \<forall>k<d2.
            item3 (flip_0 (swapaxes_0_1 (GetArrayFromImage img))) i j k =
              item3 (GetArrayFromImage img) j (d1 - 1 - i) k \<and>
            item3 (GetArrayFromImage (rotate_axes_to_microscope img)) i j k =
              item3 (GetArrayFromImage img) j (d1 - 1 - i) k mod 256 \<and>
            (0 \<le> item3 (GetArrayFromImage img) j (d1 - 1 - i) k \<and>
             item3 (GetArrayFromImage img) j (d1 - 1 - i) k \<le> 255 \<longrightarrow>
               item3 (GetArrayFromImage (rotate_axes_to_microscope img)) i j k =
               item3 (GetArrayFromImage img) j (d1 - 1 - i) k))"
    using assms
    by (simp add: GetArrayFromImage_def rotate_shape item3_rotate item3_flip_swapaxes)
  ultimately show ?thesis by blast
qed

text \<open>
  An array of two slices with three rows each: the rows of the result are the columns
  of the input, taken from the last one to the first.
\<close>

theorem rotate_axes_to_microscope_voxels_witness:
  "shape (GetArrayFromImage six_voxel_image) = (2, 3, 1) \<and>
   flip_0 (swapaxes_0_1 (GetArrayFromImage six_voxel_image)) =
     \<lparr>shape = (3, 2, 1), elems = [[[3], [6]], [[2], [5]], [[1], [4]]]\<rparr> \<and>
   GetArrayFromImage (rotate_axes_to_microscope six_voxel_image) =
     \<lparr>shape = (3, 2, 1), elems = [[[3], [6]], [[2], [5]], [[1], [4]]]\<rparr> \<and>
   item3 (flip_0 (swapaxes_0_1 (GetArrayFromImage six_voxel_image))) 0 1 0 =
     item3 (GetArrayFromImage six_voxel_image) 1 2 0"
proof -
  have s: "shape (GetArrayFromImage six_voxel_image) = (2, 3, 1)"
    by (simp add: six_voxel_image_def GetArrayFromImage_def)
  have r: "flip_0 (swapaxes_0_1 (GetArrayFromImage six_voxel_image)) =
           \<lparr>shape = (3, 2, 1), elems = [[[3], [6]], [[2], [5]], [[1], [4]]]\<rparr>"
    by (simp add: six_voxel_image_def GetArrayFromImage_def flip_0_def swapaxes_0_1_def
        tabulate3_def item3_def upt_rec)
  have c: "map_ndarray3 uint (astype_uint8
             \<lparr>shape = (3, 2, 1), elems = [[[3], [6]], [[2], [5]], [[1], [4]]]\<rparr>) =
           \<lparr>shape = (3, 2, 1), elems = [[[3], [6]], [[2], [5]], [[1], [4]]]\<rparr>"
    by (simp add: map_ndarray3_def astype_uint8_def)
  from rotate_axes_to_microscope_voxels [OF s] s r c show ?thesis by simp
qed

lemma flip_flip_map:
  "flip_0 (flip_1 (map_ndarray3 f (flip_0 (flip_1 a)))) = map_ndarray3 f a"
  by (simp add: flip_0_def flip_1_def map_ndarray3_def rev_map o_def)

lemma map_map_ndarray3: "map_ndarray3 f (map_ndarray3 g a) = map_ndarray3 (\<lambda>v. f (g v)) a"
  by (simp add: map_ndarray3_def o_def)

lemma rotate_twice:
  assumes wf: "wf_ndarray3 (buffer img)"
  shows "buffer (rotate_axes_to_microscope (rotate_axes_to_microscope img)) =
         map_ndarray3 (\<lambda>v. v mod 256) (flip_0 (flip_1 (buffer img)))"
proof -
  obtain d0 d1 d2 where s: "shape (buffer img) = (d0, d1, d2)"
    by (cases "shape (buffer img)") auto
  let ?r = "rotate_axes_to_microscope img"
  have sr: "shape (buffer ?r) = (d1, d0, d2)" using s by (rule rotate_shape)
  have wff: "wf_ndarray3 (flip_0 (flip_1 (buffer img)))"
    using wf by (simp add: wf_flip_0 wf_flip_1)
  have sff: "shape (flip_0 (flip_1 (buffer img))) = (d0, d1, d2)"
    using s by (simp add: shape_flip_0 shape_flip_1)
  show ?thesis
  proof (rule ndarray3_eqI [where ?d0.0 = d0 and ?d1.0 = d1 and ?d2.0 = d2])
    show "wf_ndarray3 (buffer (rotate_axes_to_microscope ?r))" by (rule wf_rotate)
    show "wf_ndarray3 (map_ndarray3 (\<lambda>v. v mod 256) (flip_0 (flip_1 (buffer img))))"
      using wff by (rule wf_map_ndarray3)
    show "shape (buffer (rotate_axes_to_microscope ?r)) = (d0, d1, d2)"
      using sr by (rule rotate_shape)
    show "shape (map_ndarray3 (\<lambda>v. v mod 256) (flip_0 (flip_1 (buffer img)))) = (d0, d1, d2)"
      using sff by (simp add: shape_map_ndarray3)
  next
    fix i j k assume i: "i < d0" and j: "j < d1" and k: "k < d2"
    have i': "d0 - 1 - i < d0" using i by arith
    have "item3 (buffer (rotate_axes_to_microscope ?r)) i j k =
          item3 (buffer ?r) j (d0 - 1 - i) k mod 256"
      using sr i j k by (rule item3_rotate)
    also have "item3 (buffer ?r) j (d0 - 1 - i) k =
               item3 (buffer img) (d0 - 1 - i) (d1 - 1 - j) k mod 256"
      using s j i' k by (rule item3_rotate)
    finally have lhs: "item3 (buffer (rotate_axes_to_microscope ?r)) i j k =
                       item3 (buffer img) (d0 - 1 - i) (d1 - 1 - j) k mod 256"
      by simp
    have "item3 (map_ndarray3 (\<lambda>v. v mod 256) (flip_0 (flip_1 (buffer img)))) i j k =
          item3 (flip_0 (flip_1 (buffer img))) i j k mod 256"
      using wff sff i j k by (rule item3_map_ndarray3)
    also have "item3 (flip_0 (flip_1 (buffer img))) i j k =
               item3 (flip_1 (buffer img)) (d0 - 1 - i) j k"
      using wf s i by (simp add: item3_flip_0 wf_flip_1 shape_flip_1)
    also have "\<dots> = item3 (buffer img) (d0 - 1 - i) (d1 - 1 - j) k"
      using wf s i' j by (rule item3_flip_1)
    finally show "item3 (buffer (rotate_axes_to_microscope ?r)) i j k =
                  item3 (map_ndarray3 (\<lambda>v. v mod 256) (flip_0 (flip_1 (buffer img)))) i j k"
      using lhs by simp
  qed
qed

text \<open>
  Claim C2, as the code has it. Swapping axes 0 and 1 and then flipping axis 0 is a
  quarter turn, so doing it twice is a half turn: the result is the original array
  reversed along axis 0 and along axis 1, with every sample reduced modulo 256 by the
  cast. Four applications return the original array, modulo the cast.
\<close>

theorem rotate_axes_twice:
  assumes "wf_ndarray3 (GetArrayFromImage img)"
  shows "GetArrayFromImage (rotate_axes_to_microscope (rotate_axes_to_microscope img)) =
           map_ndarray3 (\<lambda>v. v mod 256) (flip_0 (flip_1 (GetArrayFromImage img))) \<and>
         GetArrayFromImage (rotate_axes_to_microscope (rotate_axes_to_microscope
           (rotate_axes_to_microscope (rotate_axes_to_microscope img)))) =
           map_ndarray3 (\<lambda>v. v mod 256) (GetArrayFromImage img)"
proof -
  let ?r2 = "rotate_axes_to_microscope (rotate_axes_to_microscope img)"
  have two: "buffer ?r2 = map_ndarray3 (\<lambda>v. v mod 256) (flip_0 (flip_1 (buffer img)))"
    using assms by (simp add: GetArrayFromImage_def rotate_twice)
  have "wf_ndarray3 (buffer ?r2)" by (rule wf_rotate)
  then have "buffer (rotate_axes_to_microscope (rotate_axes_to_microscope ?r2)) =
             map_ndarray3 (\<lambda>v. v mod 256) (flip_0 (flip_1 (buffer ?r2)))"
    by (rule rotate_twice)
  also have "\<dots> = map_ndarray3 (\<lambda>v. v mod 256) (buffer img)"
    by (simp add: two flip_flip_map map_map_ndarray3)
  finally show ?thesis using two by (simp add: GetArrayFromImage_def)
qed

text \<open>Two quarter turns of the array with the slices 1 and 2.\<close>

theorem rotate_axes_twice_witness:
  "wf_ndarray3 (GetArrayFromImage two_slice_image) \<and>
   GetArrayFromImage (rotate_axes_to_microscope (rotate_axes_to_microscope two_slice_image)) =
     \<lparr>shape = (2, 1, 1), elems = [[[2]], [[1]]]\<rparr>"
proof -
  have w: "wf_ndarray3 (GetArrayFromImage two_slice_image)"
    by (simp add: two_slice_image_def GetArrayFromImage_def wf_ndarray3_def)
  from rotate_axes_twice [OF w] w show ?thesis
    by (simp add: two_slice_image_def GetArrayFromImage_def map_ndarray3_def flip_0_def flip_1_def)
qed

text \<open>
  Claim C2 as stated says that two applications return the original voxel data. An
  array with the two slices 1 and 2 comes back with the slices in the order 2, 1.
\<close>

theorem rotate_axes_twice_counterexample:
  "GetArrayFromImage (rotate_axes_to_microscope (rotate_axes_to_microscope two_slice_image)) \<noteq>
   map_ndarray3 (\<lambda>v. v mod 256) (GetArrayFromImage two_slice_image)"
  by (simp add: two_slice_image_def rotate_axes_to_microscope_def GetArrayFromImage_def
     GetImageFromArray_def astype_uint8_def map_ndarray3_def flip_0_def swapaxes_0_1_def
     tabulate3_def item3_def upt_rec)

subsection \<open>Opening the images\<close>

lemma bind_err_Inr_iff:
  "bind_err m f = Inr y \<longleftrightarrow> (\<exists>x. m = Inr x \<and> f x = Inr y)"
  by (cases m) (simp_all add: bind_err_def)

lemma bind_err_Inr [simp]: "bind_err (Inr x) f = f x"
  by (simp add: bind_err_def)

lemma bind_err_Inl [simp]: "bind_err (Inl e) f = Inl e"
  by (simp add: bind_err_def)

lemma SetSpacing_Inr_iff:
  "SetSpacing img sp = Inr img' \<longleftrightarrow>
   (\<exists>v. sitk_vector sp = Some v \<and> 3 \<le> length v \<and> (\<forall>s\<in>set (take 3 v). 0 < s) \<and>
        img' = img\<lparr>spacing := take 3 v\<rparr>)"
proof -
  have "list_ex (\<lambda>s. s \<le> 0) xs \<longleftrightarrow> \<not> (\<forall>s\<in>set xs. 0 < s)" for xs :: "real list"
    by (auto simp: list_ex_iff not_less)
  then show ?thesis
    by (auto simp: SetSpacing_def split: option.splits)
qed

lemma SetOrigin_Inr_iff:
  "SetOrigin img org = Inr img' \<longleftrightarrow>
   (\<exists>v. sitk_vector org = Some v \<and> 3 \<le> length v \<and> img' = img\<lparr>origin := take 3 v\<rparr>)"
  by (auto simp: SetOrigin_def split: option.splits)

lemma det3_z_mirror: "det3 [1, 0, 0, 0, 1, 0, 0, 0, -1] = -1"
  by (simp add: det3_def)

lemma orthonormal3_z_mirror: "orthonormal3 [1, 0, 0, 0, 1, 0, 0, 0, -1]"
  by (simp add: orthonormal3_def dot3_def row3_def)

lemma SetDirection_z_mirror:
  "SetDirection img [1, 0, 0, 0, 1, 0, 0, 0, -1] = Inr (img\<lparr>direction := [1, 0, 0, 0, 1, 0, 0, 0, -1]\<rparr>)"
  by (simp add: SetDirection_def det3_z_mirror)

lemma open_us_Inr_iff:
  "open_us ReadImage window_image us_path dynamic_range sp org = Inr img \<longleftrightarrow>
   (\<exists>raw_image windowed_image v w.
      ReadImage us_path = Inr raw_image \<and>
      window_image raw_image dynamic_range = Inr windowed_image \<and>
      sitk_vector sp = Some v \<and> 3 \<le> length v \<and> (\<forall>s\<in>set (take 3 v). 0 < s) \<and>
      sitk_vector org = Some w \<and> 3 \<le> length w \<and>
      img = (rotate_axes_to_microscope windowed_image)
              \<lparr>spacing := take 3 v, origin := take 3 w,
               direction := [1, 0, 0, 0, 1, 0, 0, 0, -1]\<rparr>)"
  by (auto simp: open_us_def bind_err_Inr_iff Let_def SetSpacing_Inr_iff SetOrigin_Inr_iff
      SetDirection_z_mirror)

lemma open_mpm_Inr_iff:
  "open_mpm ReadImage GetMetaData xml2dict mpm_path mpm_origin_path mpm_spacing = Inr img \<longleftrightarrow>
   (\<exists>positions org mpm_image v w.
      positions_from_ometif GetMetaData xml2dict mpm_origin_path = Inr positions \<and>
      np_min_axis0 positions = Inr org \<and>
      ReadImage mpm_path = Inr mpm_image \<and>
      sitk_vector mpm_spacing = Some v \<and> 3 \<le> length v \<and> (\<forall>s\<in>set (take 3 v). 0 < s) \<and>
      sitk_vector (array_items org) = Some w \<and> 3 \<le> length w \<and>
      img = mpm_image\<lparr>spacing := take 3 v, origin := take 3 w,
                       direction := [1, 0, 0, 0, 1, 0, 0, 0, -1]\<rparr>)"
  by (auto simp: open_mpm_def bind_err_Inr_iff SetSpacing_Inr_iff SetOrigin_Inr_iff
      SetDirection_z_mirror)

text \<open>
  Claim C5. Every image returned by \<open>open_us\<close> and every image returned by \<open>open_mpm\<close>
  has the direction matrix \<open>diag(1, 1, -1)\<close>, which is orthonormal and has
  determinant \<open>-1\<close>.
\<close>

theorem direction_z_mirror:
  "(open_us ReadImage window_image us_path dynamic_range sp org = Inr us_image \<longrightarrow>
      direction us_image = [1, 0, 0, 0, 1, 0, 0, 0, -1] \<and>
      orthonormal3 (direction us_image) \<and> det3 (direction us_image) = -1) \<and>
   (open_mpm ReadImage GetMetaData xml2dict mpm_path mpm_origin_path mpm_spacing = Inr mpm_image \<longrightarrow>
      direction mpm_image = [1, 0, 0, 0, 1, 0, 0, 0, -1] \<and>
      orthonormal3 (direction mpm_image) \<and> det3 (direction mpm_image) = -1)"
  by (auto simp: open_us_Inr_iff open_mpm_Inr_iff det3_z_mirror orthonormal3_z_mirror)

text \<open>Both constructions on small files.\<close>

lemma us_vectors:
  "sitk_vector us_spacing = Some [25, 25, 25]" "sitk_vector tendon_origin = Some [0, 0, 4]"
  by (simp_all add: sitk_vector_def us_spacing_def tendon_origin_def)

lemma one_tile_positions:
  "positions_from_ometif (\<lambda>p. Inr ''xml'') (\<lambda>x. Inr one_tile_ome) ''Tendon 2.ome.tif'' =
   Inr [[PFloat 10, PFloat 20, PInt 3]]"
  by (simp add: positions_from_ometif_def one_tile_ome_def position_row_def np_homogeneous_def)

lemma one_tile_origin:
  "np_min_axis0 [[PFloat 10, PFloat 20, PInt 3]] = Inr (NumArray np_float64 [10, 20, 3])"
  by (simp add: np_min_axis0_def np_homogeneous_def np_result_type_def)

lemma one_tile_origin_vector:
  "sitk_vector [NpScalar np_float64 10, NpScalar np_float64 20, NpScalar np_float64 3] =
   Some [10, 20, 3]"
  by (simp add: sitk_vector_def)

theorem direction_z_mirror_witness:
  "\<exists>us_image mpm_image.
     open_us (\<lambda>p. Inr wide_sample_image) (\<lambda>img r. Inr img) ''Tendon 2.tif'' 50 us_spacing
       tendon_origin = Inr us_image \<and>
     open_mpm (\<lambda>p. Inr wide_sample_image) (\<lambda>p. Inr ''xml'') (\<lambda>x. Inr one_tile_ome)
       ''Tendon 2.tif'' ''Tendon 2.ome.tif'' us_spacing = Inr mpm_image \<and>
     direction us_image = [1, 0, 0, 0, 1, 0, 0, 0, -1] \<and>
     direction mpm_image = [1, 0, 0, 0, 1, 0, 0, 0, -1] \<and>
     det3 (direction us_image) = -1 \<and> det3 (direction mpm_image) = -1"
proof -
  let ?ReadImage = "\<lambda>p :: string. Inr wide_sample_image :: py_error + image"
  let ?window = "\<lambda>(img :: image) (r :: real). Inr img :: py_error + image"
  let ?GetMetaData = "\<lambda>p :: string. Inr ''xml'' :: py_error + string"
  let ?xml2dict = "\<lambda>x :: string. Inr one_tile_ome :: py_error + pyval"
  obtain us_image where
    u: "open_us ?ReadImage ?window ''Tendon 2.tif'' 50 us_spacing tendon_origin = Inr us_image"
    by (simp add: open_us_Inr_iff us_vectors)
  obtain mpm_image where
    m: "open_mpm ?ReadImage ?GetMetaData ?xml2dict ''Tendon 2.tif'' ''Tendon 2.ome.tif''
          us_spacing = Inr mpm_image"
    by (simp add: open_mpm_Inr_iff one_tile_positions one_tile_origin one_tile_origin_vector
        us_vectors)
  from direction_z_mirror [where ReadImage = ?ReadImage and window_image = ?window
      and us_path = "''Tendon 2.tif''" and dynamic_range = 50 and sp = us_spacing
      and org = tendon_origin and us_image = us_image and GetMetaData = ?GetMetaData
      and xml2dict = ?xml2dict and mpm_path = "''Tendon 2.tif''"
      and mpm_origin_path = "''Tendon 2.ome.tif''" and mpm_spacing = us_spacing
      and mpm_image = mpm_image] u m
  show ?thesis by blast
qed

text \<open>
  Claim C10. Whatever the sample type and the intensities of the windowed ultrasound
  image, the image returned by \<open>open_us\<close> has sample type \<open>sitkUInt8\<close>; its voxels are
  those of the rotated array reduced modulo 256, so every one of them lies between 0
  and 255.
\<close>

theorem open_us_uint8:
  assumes "ReadImage us_path = Inr raw_image"
    and "window_image raw_image dynamic_range = Inr windowed_image"
    and "open_us ReadImage window_image us_path dynamic_range sp org = Inr us_image"
  shows "pixel us_image = sitkUInt8 \<and>
         buffer us_image =
           map_ndarray3 (\<lambda>v. v mod 256) (flip_0 (swapaxes_0_1 (buffer windowed_image))) \<and>
         list_all (list_all (list_all (\<lambda>v. 0 \<le> v \<and> v \<le> 255))) (elems (buffer us_image))"
proof -
  from assms obtain v w where
    img: "us_image = (rotate_axes_to_microscope windowed_image)
              \<lparr>spacing := v, origin := w, direction := [1, 0, 0, 0, 1, 0, 0, 0, -1]\<rparr>"
    by (auto simp: open_us_Inr_iff)
  have p: "pixel us_image = sitkUInt8"
    by (simp add: img rotate_axes_to_microscope_def GetImageFromArray_def Let_def)
  have b: "buffer us_image =
           map_ndarray3 (\<lambda>v. v mod 256) (flip_0 (swapaxes_0_1 (buffer windowed_image)))"
    by (simp add: img buffer_rotate)
  have "list_all (list_all (list_all (\<lambda>v. 0 \<le> v \<and> v \<le> 255))) (elems (buffer us_image))"
    unfolding b by (auto simp: map_ndarray3_def list_all_iff intro: zle_diff1_eq [THEN iffD2])
  with p b show ?thesis by simp
qed

text \<open>A 16-bit sample of 300 is stored as 44.\<close>

theorem open_us_uint8_witness:
  "\<exists>us_image.
     open_us (\<lambda>p. Inr wide_sample_image) (\<lambda>img r. Inr img) ''Tendon 2.tif'' 50 us_spacing
       tendon_origin = Inr us_image \<and>
     pixel us_image = sitkUInt8 \<and> elems (buffer us_image) = [[[44]]]"
proof -
  let ?ReadImage = "\<lambda>p :: string. Inr wide_sample_image :: py_error + image"
  let ?window = "\<lambda>(img :: image) (r :: real). Inr img :: py_error + image"
  obtain us_image where
    u: "open_us ?ReadImage ?window ''Tendon 2.tif'' 50 us_spacing tendon_origin = Inr us_image"
    by (simp add: open_us_Inr_iff us_vectors)
  have "elems (map_ndarray3 (\<lambda>v. v mod 256) (flip_0 (swapaxes_0_1 (buffer wide_sample_image)))) =
        [[[44]]]"
    by (simp add: wide_sample_image_def map_ndarray3_def flip_0_def swapaxes_0_1_def
        tabulate3_def item3_def)
  with open_us_uint8 [OF refl refl u] u show ?thesis by simp
qed

text \<open>
  Claim C6. A spacing given as three strictly positive numbers is accepted by
  \<open>SetSpacing\<close> and stored unchanged, whatever the file holds, and it is the spacing of
  every image that \<open>open_us\<close> or \<open>open_mpm\<close> returns.
\<close>

theorem spacing_preserved:
  assumes "sitk_vector sp = Some v" and "length v = 3" and "\<forall>s\<in>set v. 0 < s"
  shows "SetSpacing img sp = Inr (img\<lparr>spacing := v\<rparr>) \<and>
         (open_us ReadImage window_image us_path dynamic_range sp org = Inr us_image \<longrightarrow>
            spacing us_image = v) \<and>
         (open_mpm ReadImage GetMetaData xml2dict mpm_path mpm_origin_path sp = Inr mpm_image \<longrightarrow>
            spacing mpm_image = v)"
  using assms by (auto simp: SetSpacing_Inr_iff open_us_Inr_iff open_mpm_Inr_iff)

text \<open>The ultrasound spacing of the notebook, 25 along each axis.\<close>

theorem spacing_preserved_witness:
  "sitk_vector us_spacing = Some [25, 25, 25] \<and>
   (\<exists>us_image mpm_image.
     open_us (\<lambda>p. Inr wide_sample_image) (\<lambda>img r. Inr img) ''Tendon 2.tif'' 50 us_spacing
       tendon_origin = Inr us_image \<and>
     open_mpm (\<lambda>p. Inr wide_sample_image) (\<lambda>p. Inr ''xml'') (\<lambda>x. Inr one_tile_ome)
       ''Tendon 2.tif'' ''Tendon 2.ome.tif'' us_spacing = Inr mpm_image \<and>
     SetSpacing wide_sample_image us_spacing = Inr (wide_sample_image\<lparr>spacing := [25, 25, 25]\<rparr>) \<and>
     spacing us_image = [25, 25, 25] \<and> spacing mpm_image = [25, 25, 25])"
proof -
  let ?ReadImage = "\<lambda>p :: string. Inr wide_sample_image :: py_error + image"
  let ?window = "\<lambda>(img :: image) (r :: real). Inr img :: py_error + image"
  let ?GetMetaData = "\<lambda>p :: string. Inr ''xml'' :: py_error + string"
  let ?xml2dict = "\<lambda>x :: string. Inr one_tile_ome :: py_error + pyval"
  obtain us_image where
    u: "open_us ?ReadImage ?window ''Tendon 2.tif'' 50 us_spacing tendon_origin = Inr us_image"
    by (simp add: open_us_Inr_iff us_vectors)
  obtain mpm_image where
    m: "open_mpm ?ReadImage ?GetMetaData ?xml2dict ''Tendon 2.tif'' ''Tendon 2.ome.tif''
          us_spacing = Inr mpm_image"
    by (simp add: open_mpm_Inr_iff one_tile_positions one_tile_origin one_tile_origin_vector
        us_vectors)
  have len: "length [25, 25, 25 :: real] = 3" by simp
  have positive: "\<forall>s\<in>set [25, 25, 25 :: real]. 0 < s" by simp
  from spacing_preserved [OF us_vectors(1) len positive, where img = wide_sample_image
      and ReadImage = ?ReadImage and window_image = ?window and us_path = "''Tendon 2.tif''"
      and dynamic_range = 50 and org = tendon_origin and us_image = us_image
      and GetMetaData = ?GetMetaData and xml2dict = ?xml2dict and mpm_path = "''Tendon 2.tif''"
      and mpm_origin_path = "''Tendon 2.ome.tif''" and mpm_image = mpm_image] u m us_vectors(1)
  show ?thesis by blast
qed

subsection \<open>The origin of the position list\<close>

lemma py_number_scalar:
  assumes "py_number v \<noteq> None"
  shows "py_scalar v" "\<not> py_object v" "\<not> py_string v" "py_shape v = Some []" "py_leaves v = [v]"
  using assms by (cases v; simp)+

lemma numbers_leaves:
  "list_all (\<lambda>v. py_number v \<noteq> None) vs \<Longrightarrow> concat (map py_leaves vs) = vs"
  by (induction vs) (simp_all add: py_number_scalar)

lemma numbers_homogeneous:
  "list_all (\<lambda>v. py_number v \<noteq> None) vs \<Longrightarrow> np_homogeneous vs"
proof -
  assume "list_all (\<lambda>v. py_number v \<noteq> None) vs"
  then have "map py_shape vs = replicate (length vs) (Some [])"
    by (induction vs) (simp_all add: py_number_scalar)
  then show ?thesis
    by (cases vs) (auto simp: np_homogeneous_def list_all_iff)
qed

lemma np_min_axis0_numbers:
  assumes "list_all (\<lambda>q. length q = length r) rs"
    and "list_all (list_all (\<lambda>v. py_number v \<noteq> None)) (r # rs)"
  shows "np_min_axis0 (r # rs) =
         Inr (NumArray (np_result_type (concat (r # rs)))
                (foldl min_rows (map (\<lambda>v. the (py_number v)) r)
                   (map (map (\<lambda>v. the (py_number v))) rs)))"
proof -
  have all: "list_all (\<lambda>v. py_number v \<noteq> None) (concat (r # rs))"
    using assms(2) by (auto simp: list_all_iff)
  have l: "concat (map py_leaves (concat (r # rs))) = concat (r # rs)"
    using all by (rule numbers_leaves)
  have h: "np_homogeneous (concat (r # rs))" using all by (rule numbers_homogeneous)
  have o: "\<not> list_ex py_object (concat (r # rs))" "\<not> list_ex py_string (concat (r # rs))"
    "list_all py_scalar (concat (r # rs))"
    using all by (auto simp: list_all_iff list_ex_iff py_number_scalar)
  show ?thesis
    unfolding np_min_axis0_def list.case l Let_def using assms(1) h o by simp
qed

lemma foldl_min_rows_pairs:
  "\<forall>r\<in>set rs. length r = 2 \<Longrightarrow>
   foldl min_rows [a, b] rs =
   [fold min (map (\<lambda>r. r ! 0) rs) a, fold min (map (\<lambda>r. r ! 1) rs) b]"
proof (induction rs arbitrary: a b)
  case Nil
  then show ?case by simp
next
  case (Cons r rs)
  from Cons.prems obtain c d where r: "r = [c, d]"
    by (cases r; cases "tl r"; cases "tl (tl r)") auto
  have "min_rows [a, b] r = [min a c, min b d]" by (simp add: r min_rows_def)
  with Cons show ?case by (simp add: r min.commute)
qed

lemma np_min_axis0_pairs:
  assumes ne: "pos_list \<noteq> []"
    and ok: "list_all (\<lambda>r. length r = 2 \<and> list_all (\<lambda>v. py_number v \<noteq> None) r) pos_list"
  shows "np_min_axis0 pos_list =
         Inr (NumArray (np_result_type (concat pos_list))
                [Min ((\<lambda>r. the (py_number (r ! 0))) ` set pos_list),
                 Min ((\<lambda>r. the (py_number (r ! 1))) ` set pos_list)])"
proof -
  from ne obtain r rs where rows: "pos_list = r # rs" by (cases pos_list) auto
  from ok rows obtain x y where r: "r = [x, y]"
    by (cases r; cases "tl r"; cases "tl (tl r)") auto
  let ?n = "\<lambda>v. the (py_number v)"
  let ?rs = "map (map ?n) rs"
  have len: "\<forall>q\<in>set ?rs. length q = 2" using ok rows by (auto simp: list_all_iff)
  have c0: "map (\<lambda>q. q ! 0) ?rs = map (\<lambda>q. ?n (q ! 0)) rs"
    using ok rows by (auto simp: list_all_iff)
  have c1: "map (\<lambda>q. q ! 1) ?rs = map (\<lambda>q. ?n (q ! 1)) rs"
    using ok rows by (auto simp: list_all_iff)
  have same: "list_all (\<lambda>q. length q = length r) rs"
    using ok rows by (auto simp: list_all_iff)
  have nums: "list_all (list_all (\<lambda>v. py_number v \<noteq> None)) (r # rs)"
    using ok rows by (auto simp: list_all_iff)
  have "np_min_axis0 pos_list =
        Inr (NumArray (np_result_type (concat pos_list)) (foldl min_rows [?n x, ?n y] ?rs))"
    using np_min_axis0_numbers [OF same nums] by (simp add: rows r)
  also have "foldl min_rows [?n x, ?n y] ?rs =
             [fold min (map (\<lambda>q. ?n (q ! 0)) rs) (?n x), fold min (map (\<lambda>q. ?n (q ! 1)) rs) (?n y)]"
    unfolding foldl_min_rows_pairs [OF len] c0 c1 ..
  also have "fold min (map (\<lambda>q. ?n (q ! 0)) rs) (?n x) = Min ((\<lambda>q. ?n (q ! 0)) ` set pos_list)"
    using Min.set_eq_fold [of "?n x" "map (\<lambda>q. ?n (q ! 0)) rs"] by (simp add: rows r)
  also have "fold min (map (\<lambda>q. ?n (q ! 1)) rs) (?n y) = Min ((\<lambda>q. ?n (q ! 1)) ` set pos_list)"
    using Min.set_eq_fold [of "?n y" "map (\<lambda>q. ?n (q ! 1)) rs"] by (simp add: rows r)
  finally show ?thesis .
qed

text \<open>
  Claim C4. When the cleaned position list is a non-empty list of numeric \<open>(x, y)\<close>
  pairs, \<open>get_xy_origin\<close> returns the smallest \<open>x\<close> and the smallest \<open>y\<close> of the list,
  as an array of two numbers.
\<close>

theorem get_xy_origin_min:
  assumes "read_json pl_path = Inr raw_pos_list"
    and "clean_position_text raw_pos_list = Inr (pos_list, labels)"
    and "pos_list \<noteq> []"
    and "list_all (\<lambda>r. length r = 2 \<and> list_all (\<lambda>v. py_number v \<noteq> None) r) pos_list"
  shows "get_xy_origin read_json clean_position_text pl_path =
         Inr (NumArray (np_result_type (concat pos_list))
                [Min ((\<lambda>r. the (py_number (r ! 0))) ` set pos_list),
                 Min ((\<lambda>r. the (py_number (r ! 1))) ` set pos_list)])"
  using assms by (simp add: get_xy_origin_def np_min_axis0_pairs)

text \<open>The position list \<open>[(1, 5), (3, 2), (0, 9)]\<close> has the origin \<open>(0, 2)\<close>.\<close>

theorem get_xy_origin_min_witness:
  "get_xy_origin (\<lambda>p. Inr PNone)
     (\<lambda>raw. Inr ([[PInt 1, PInt 5], [PInt 3, PInt 2], [PInt 0, PInt 9]], ())) ''us.pos'' =
   Inr (NumArray np_int64 [0, 2])"
  using get_xy_origin_min [of "\<lambda>p. Inr PNone" "''us.pos''" PNone
      "\<lambda>raw. Inr ([[PInt 1, PInt 5], [PInt 3, PInt 2], [PInt 0, PInt 9]], ())"
      "[[PInt 1, PInt 5], [PInt 3, PInt 2], [PInt 0, PInt 9]]" "()"]
  by (simp add: np_result_type_def)

subsection \<open>The rigid transform and its inverse\<close>

lemma versor_axis_unit_ball:
  obtains x y z where "versor_axis ps = [x, y, z]" and "x * x + y * y + z * z \<le> 1"
proof -
  define s where "s = ps ! 0 * ps ! 0 + ps ! 1 * ps ! 1 + ps ! 2 * ps ! 2"
  define n where "n = sqrt s"
  define e :: real where "e = 1 / 10 ^ 10"
  have s0: "0 \<le> s" by (simp add: s_def)
  have nn: "n * n = s" using s0 by (simp add: n_def)
  have n0: "0 \<le> n" using s0 by (simp add: n_def)
  have e0: "0 < e" "e < 1" by (simp_all add: e_def)
  show ?thesis
  proof (cases "n \<ge> 1 - e")
    case True
    then have npos: "0 < n" using e0 by simp
    define k where "k = n + e * n"
    have k: "k = n * (1 + e)" by (simp add: k_def algebra_simps)
    have kpos: "0 < k" using npos e0 by (simp add: k)
    have ax: "versor_axis ps = [ps ! 0 / k, ps ! 1 / k, ps ! 2 / k]"
      using True by (simp add: versor_axis_def Let_def s_def n_def e_def k_def)
    have "ps ! 0 / k * (ps ! 0 / k) + ps ! 1 / k * (ps ! 1 / k) + ps ! 2 / k * (ps ! 2 / k)
          = s / (k * k)"
      by (simp add: s_def add_divide_distrib)
    also have "\<dots> = 1 / ((1 + e) * (1 + e))"
      using npos e0 by (simp add: k nn [symmetric])
    also have "\<dots> \<le> 1"
    proof -
      have "1 \<le> (1 + e) * (1 + e)" using e0 by (simp add: algebra_simps)
      then show ?thesis by simp
    qed
    finally show ?thesis using ax that by blast
  next
    case False
    then have n1: "n < 1" using e0 by simp
    have ax: "versor_axis ps = [ps ! 0, ps ! 1, ps ! 2]"
      using False by (simp add: versor_axis_def Let_def s_def n_def e_def)
    have "n * n \<le> 1 * 1" using n0 n1 by (intro mult_mono) simp_all
    then have "s \<le> 1" by (simp add: nn)
    then show ?thesis using ax that by (simp add: s_def)
  qed
qed

lemma versor_axis_np_scale:
  assumes "3 \<le> length ps" and "versor_axis ps = [x, y, z]"
  shows "versor_axis (np_scale (- 1) ps) = [- x, - y, - z]"
proof -
  have i: "np_scale (- 1) ps ! 0 = - (ps ! 0)" "np_scale (- 1) ps ! 1 = - (ps ! 1)"
    "np_scale (- 1) ps ! 2 = - (ps ! 2)"
  proof -
    have l: "0 < length ps" "1 < length ps" "2 < length ps" using assms(1) by auto
    show "np_scale (- 1) ps ! 0 = - (ps ! 0)" unfolding np_scale_def nth_map [OF l(1)] by simp
    show "np_scale (- 1) ps ! 1 = - (ps ! 1)" unfolding np_scale_def nth_map [OF l(2)] by simp
    show "np_scale (- 1) ps ! 2 = - (ps ! 2)" unfolding np_scale_def nth_map [OF l(3)] by simp
  qed
  show ?thesis
    using assms(2) unfolding versor_axis_def i Let_def
    by (auto split: if_splits)
qed


lemma versor_matrix_neg:
  "versor_matrix [- x, - y, - z] = transpose3 (versor_matrix [x, y, z])"
  by (simp add: versor_matrix_def transpose3_def Let_def)

lemma versor_matrix_explicit:
  "versor_matrix [x, y, z] =
     (let w = sqrt (1 - (x * x + y * y + z * z))
      in [1 - 2 * (y * y + z * z), 2 * (x * y - z * w), 2 * (x * z + y * w),
          2 * (x * y + z * w), 1 - 2 * (x * x + z * z), 2 * (y * z - x * w),
          2 * (x * z - y * w), 2 * (y * z + x * w), 1 - 2 * (x * x + y * y)])"
  by (simp add: versor_matrix_def Let_def)

lemma versor_matrix_orthogonal:
  assumes "x * x + y * y + z * z \<le> 1"
  shows "mat_vec (transpose3 (versor_matrix [x, y, z])) (mat_vec (versor_matrix [x, y, z]) [a, b, c])
         = [a, b, c]"
    and "mat_vec (versor_matrix [x, y, z]) (mat_vec (transpose3 (versor_matrix [x, y, z])) [a, b, c])
         = [a, b, c]"
proof -
  define w where "w = sqrt (1 - (x * x + y * y + z * z))"
  have w: "w * w = 1 - (x * x + y * y + z * z)"
    using assms by (simp add: w_def)
  have m: "versor_matrix [x, y, z] =
     [1 - 2 * (y * y + z * z), 2 * (x * y - z * w), 2 * (x * z + y * w),
      2 * (x * y + z * w), 1 - 2 * (x * x + z * z), 2 * (y * z - x * w),
      2 * (x * z - y * w), 2 * (y * z + x * w), 1 - 2 * (x * x + y * y)]"
    by (simp add: versor_matrix_explicit Let_def w_def)
  show "mat_vec (transpose3 (versor_matrix [x, y, z])) (mat_vec (versor_matrix [x, y, z]) [a, b, c])
         = [a, b, c]"
    unfolding m
    apply (simp add: mat_vec_def transpose3_def dot3_def row3_def)
    using w apply (intro conjI)
    apply algebra+
    done
  show "mat_vec (versor_matrix [x, y, z]) (mat_vec (transpose3 (versor_matrix [x, y, z])) [a, b, c])
         = [a, b, c]"
    unfolding m
    apply (simp add: mat_vec_def transpose3_def dot3_def row3_def)
    using w apply (intro conjI)
    apply algebra+
    done
qed


lemma TransformPoint_origin_center:
  "center t = [0, 0, 0] \<Longrightarrow> translation t = [t0, t1, t2] \<Longrightarrow>
   TransformPoint t [a, b, c] =
   [dot3 (row3 (matrix t) 0) [a, b, c] + t0, dot3 (row3 (matrix t) 1) [a, b, c] + t1,
    dot3 (row3 (matrix t) 2) [a, b, c] + t2]"
  by (simp add: TransformPoint_def vec_add_def vec_sub_def mat_vec_def dot3_def)

lemma np_scale_nth: "i < length ps \<Longrightarrow> np_scale (- 1) ps ! i = - (ps ! i)"
  by (simp add: np_scale_def)

lemma rigid_inverse_facts:
  fixes x y z t0 t1 t2 :: real
  assumes ball: "x * x + y * y + z * z \<le> 1"
  defines "T \<equiv> \<lparr>center = [0, 0, 0], matrix = versor_matrix [x, y, z], translation = [t0, t1, t2]\<rparr>"
  defines "N \<equiv> \<lparr>center = [0, 0, 0], matrix = transpose3 (versor_matrix [x, y, z]),
                 translation = [- t0, - t1, - t2]\<rparr>"
  shows "TransformPoint (exact_inverse T) (TransformPoint T [a, b, c]) = [a, b, c]"
    and "TransformPoint T (TransformPoint (exact_inverse T) [a, b, c]) = [a, b, c]"
    and "TransformPoint N [a, b, c] =
         vec_add (TransformPoint (exact_inverse T) [a, b, c])
           (vec_sub (mat_vec (transpose3 (matrix T)) (translation T)) (translation T))"
proof -
  define w where "w = sqrt (1 - (x * x + y * y + z * z))"
  have w: "w * w = 1 - (x * x + y * y + z * z)"
    using ball by (simp add: w_def)
  have m: "versor_matrix [x, y, z] =
     [1 - 2 * (y * y + z * z), 2 * (x * y - z * w), 2 * (x * z + y * w),
      2 * (x * y + z * w), 1 - 2 * (x * x + z * z), 2 * (y * z - x * w),
      2 * (x * z - y * w), 2 * (y * z + x * w), 1 - 2 * (x * x + y * y)]"
    by (simp add: versor_matrix_explicit Let_def w_def)
  show "TransformPoint (exact_inverse T) (TransformPoint T [a, b, c]) = [a, b, c]"
    unfolding T_def m
    apply (simp add: TransformPoint_def exact_inverse_def vec_add_def vec_sub_def mat_vec_def
        transpose3_def dot3_def row3_def)
    using w apply (intro conjI)
    apply algebra+
    done
  show "TransformPoint T (TransformPoint (exact_inverse T) [a, b, c]) = [a, b, c]"
    unfolding T_def m
    apply (simp add: TransformPoint_def exact_inverse_def vec_add_def vec_sub_def mat_vec_def
        transpose3_def dot3_def row3_def)
    using w apply (intro conjI)
    apply algebra+
    done
  show "TransformPoint N [a, b, c] =
         vec_add (TransformPoint (exact_inverse T) [a, b, c])
           (vec_sub (mat_vec (transpose3 (matrix T)) (translation T)) (translation T))"
    unfolding T_def N_def m
    by (simp add: TransformPoint_def exact_inverse_def vec_add_def vec_sub_def mat_vec_def
        transpose3_def dot3_def row3_def algebra_simps)
qed


lemma mat_vec_list3: "mat_vec m v = [mat_vec m v ! 0, mat_vec m v ! 1, mat_vec m v ! 2]"
  by (simp add: mat_vec_def)

lemma TransformPoint_list3:
  "TransformPoint t p = [TransformPoint t p ! 0, TransformPoint t p ! 1, TransformPoint t p ! 2]"
  by (simp add: TransformPoint_def vec_add_def)

lemma vec_add_vec_sub_fixed:
  "vec_add [e0, e1, e2] (vec_sub [u0, u1, u2] [t0, t1, t2]) = [e0, e1, e2] \<longleftrightarrow>
   [u0, u1, u2] = [t0, t1, t2]"
  by (auto simp: vec_add_def vec_sub_def)

lemma rigid_inverse_iff:
  fixes x y z t0 t1 t2 :: real
  assumes ball: "x * x + y * y + z * z \<le> 1"
  defines "T \<equiv> \<lparr>center = [0, 0, 0], matrix = versor_matrix [x, y, z], translation = [t0, t1, t2]\<rparr>"
  defines "N \<equiv> \<lparr>center = [0, 0, 0], matrix = transpose3 (versor_matrix [x, y, z]),
                 translation = [- t0, - t1, - t2]\<rparr>"
  shows "(\<forall>a b c. TransformPoint N [a, b, c] = TransformPoint (exact_inverse T) [a, b, c]) \<longleftrightarrow>
         mat_vec (matrix T) (translation T) = translation T"
proof -
  let ?M = "versor_matrix [x, y, z]"
  let ?t = "[t0, t1, t2]"
  obtain u0 u1 u2 where u: "mat_vec (transpose3 ?M) ?t = [u0, u1, u2]"
    using mat_vec_list3 by blast
  have step: "TransformPoint N [a, b, c] = TransformPoint (exact_inverse T) [a, b, c] \<longleftrightarrow>
              mat_vec (transpose3 ?M) ?t = ?t" for a b c
  proof -
    obtain e0 e1 e2 where e: "TransformPoint (exact_inverse T) [a, b, c] = [e0, e1, e2]"
      using TransformPoint_list3 by blast
    have "TransformPoint N [a, b, c] = vec_add [e0, e1, e2] (vec_sub [u0, u1, u2] ?t)"
      using rigid_inverse_facts(3) [OF ball, of t0 t1 t2 a b c]
      by (simp add: T_def N_def e [unfolded T_def] u)
    then show ?thesis by (simp add: e u vec_add_vec_sub_fixed)
  qed
  have "mat_vec (transpose3 ?M) ?t = ?t \<longleftrightarrow> mat_vec ?M ?t = ?t"
  proof
    assume "mat_vec (transpose3 ?M) ?t = ?t"
    then have "mat_vec ?M ?t = mat_vec ?M (mat_vec (transpose3 ?M) ?t)" by simp
    also have "\<dots> = ?t" using ball by (rule versor_matrix_orthogonal(2))
    finally show "mat_vec ?M ?t = ?t" .
  next
    assume "mat_vec ?M ?t = ?t"
    then have "mat_vec (transpose3 ?M) ?t = mat_vec (transpose3 ?M) (mat_vec ?M ?t)" by simp
    also have "\<dots> = ?t" using ball by (rule versor_matrix_orthogonal(1))
    finally show "mat_vec (transpose3 ?M) ?t = ?t" .
  qed
  with step show ?thesis by (simp add: T_def)
qed

lemma sqrt_9_25: "sqrt (9 / 25) = 3 / 5"
  by (simp add: real_sqrt_divide)

lemma sqrt_16_25: "sqrt (16 / 25) = 4 / 5"
  by (simp add: real_sqrt_divide)

lemma versor_matrix_example:
  "versor_matrix (versor_axis [0, 0, 3 / 5, 1, 0, 0]) =
   [7 / 25, - (24 / 25), 0, 24 / 25, 7 / 25, 0, 0, 0, 1]"
  by (simp add: versor_axis_def versor_matrix_def Let_def sqrt_9_25 sqrt_16_25)

text \<open>
  Claim C1. Let \<open>T\<close> be the transform built from six parameters, with rotation \<open>R\<close> and
  translation \<open>t\<close>, and \<open>N\<close> the transform built from the negated parameters, as the
  notebook does for the opposite direction. The inverse of \<open>T\<close> is \<open>(R\<^sup>T, - R\<^sup>T t)\<close>:
  it undoes \<open>T\<close> on both sides. \<open>N\<close> has the rotation \<open>R\<^sup>T\<close> but the translation \<open>- t\<close>, so
  it differs from the inverse by the constant vector \<open>R\<^sup>T t - t\<close>. The two agree exactly
  when the rotation leaves the translation fixed (\<open>R t = t\<close>: no rotation, no translation,
  or a translation along the axis of rotation), and differ for every other transform.
\<close>

theorem negated_parameters_inverse:
  assumes "length ps = 6"
  shows "\<exists>T N. SetParameters VersorRigid3DTransform ps = Inr T \<and>
           SetParameters VersorRigid3DTransform (np_scale (- 1) ps) = Inr N \<and>
           (\<forall>a b c. TransformPoint (exact_inverse T) (TransformPoint T [a, b, c]) = [a, b, c]) \<and>
           (\<forall>a b c. TransformPoint T (TransformPoint (exact_inverse T) [a, b, c]) = [a, b, c]) \<and>
           (\<forall>a b c. TransformPoint N [a, b, c] =
              vec_add (TransformPoint (exact_inverse T) [a, b, c])
                (vec_sub (mat_vec (transpose3 (matrix T)) (translation T)) (translation T))) \<and>
           ((\<forall>a b c. TransformPoint N [a, b, c] = TransformPoint (exact_inverse T) [a, b, c]) \<longleftrightarrow>
              mat_vec (matrix T) (translation T) = translation T)"
proof -
  obtain x y z where ax: "versor_axis ps = [x, y, z]" and ball: "x * x + y * y + z * z \<le> 1"
    by (rule versor_axis_unit_ball)
  have nax: "versor_axis (np_scale (- 1) ps) = [- x, - y, - z]"
    using assms ax by (intro versor_axis_np_scale) simp_all
  let ?T = "\<lparr>center = [0, 0, 0], matrix = versor_matrix [x, y, z],
             translation = [ps ! 3, ps ! 4, ps ! 5]\<rparr>"
  let ?N = "\<lparr>center = [0, 0, 0], matrix = transpose3 (versor_matrix [x, y, z]),
             translation = [- (ps ! 3), - (ps ! 4), - (ps ! 5)]\<rparr>"
  have T: "SetParameters VersorRigid3DTransform ps = Inr ?T"
    using assms by (simp add: SetParameters_def VersorRigid3DTransform_def ax)
  have N: "SetParameters VersorRigid3DTransform (np_scale (- 1) ps) = Inr ?N"
    using assms
    by (simp add: SetParameters_def VersorRigid3DTransform_def nax versor_matrix_neg np_scale_nth)
      (simp add: np_scale_def)
  show ?thesis
    using T N rigid_inverse_facts [OF ball, of "ps ! 3" "ps ! 4" "ps ! 5"]
      rigid_inverse_iff [OF ball, of "ps ! 3" "ps ! 4" "ps ! 5"]
    by (intro exI [of _ ?T] exI [of _ ?N]) simp
qed

text \<open>
  A rotation about the third axis with a shift along the first one: the negated
  parameters do not give the inverse.
\<close>

theorem negated_parameters_inverse_witness:
  "length [0, 0, 3 / 5, 1, 0, 0 :: real] = 6 \<and>
   (\<exists>T N. SetParameters VersorRigid3DTransform [0, 0, 3 / 5, 1, 0, 0] = Inr T \<and>
      SetParameters VersorRigid3DTransform (np_scale (- 1) [0, 0, 3 / 5, 1, 0, 0]) = Inr N \<and>
      TransformPoint (exact_inverse T) (TransformPoint T [0, 0, 0]) = [0, 0, 0] \<and>
      mat_vec (matrix T) (translation T) = [7 / 25, 24 / 25, 0] \<and>
      translation T = [1, 0, 0] \<and>
      \<not> (\<forall>a b c. TransformPoint N [a, b, c] = TransformPoint (exact_inverse T) [a, b, c]))"
proof -
  have len: "length [0, 0, 3 / 5, 1, 0, 0 :: real] = 6" by simp
  from negated_parameters_inverse [OF len] obtain T N where
    T: "SetParameters VersorRigid3DTransform [0, 0, 3 / 5, 1, 0, 0] = Inr T" and
    N: "SetParameters VersorRigid3DTransform (np_scale (- 1) [0, 0, 3 / 5, 1, 0, 0]) = Inr N" and
    inv: "\<forall>a b c. TransformPoint (exact_inverse T) (TransformPoint T [a, b, c]) = [a, b, c]" and
    iff: "(\<forall>a b c. TransformPoint N [a, b, c] = TransformPoint (exact_inverse T) [a, b, c]) \<longleftrightarrow>
          mat_vec (matrix T) (translation T) = translation T"
    by blast
  from T have m: "matrix T = [7 / 25, - (24 / 25), 0, 24 / 25, 7 / 25, 0, 0, 0, 1]"
    and t: "translation T = [1, 0, 0]"
    by (auto simp: SetParameters_def versor_matrix_example)
  have mt: "mat_vec (matrix T) (translation T) = [7 / 25, 24 / 25, 0]"
    by (simp add: m t mat_vec_def dot3_def row3_def)
  have "\<not> (\<forall>a b c. TransformPoint N [a, b, c] = TransformPoint (exact_inverse T) [a, b, c])"
    unfolding iff using mt by (simp add: t)
  with len T N inv mt t show ?thesis by blast
qed

subsection \<open>Applying the transform\<close>
















lemma apply_transform_Inr_iff:
  "apply_transform s moving_image fixed_image transform_params = Inr (reg, s') \<longleftrightarrow>
   (\<exists>T. SetParameters VersorRigid3DTransform (arrays s ! transform_params) = Inr T \<and>
        reg = length (images s) \<and>
        s' = s\<lparr>images := images s @
               [Resample (images s ! moving_image) (images s ! fixed_image) T sitkLinear 0
                  (GetPixelID (images s ! fixed_image))]\<rparr>)"
  by (auto simp: apply_transform_def Let_def bind_err_Inr_iff)













text \<open>
  Claim C8. \<open>apply_transform\<close> returns a new object, different from every object that
  the store held before the call, and leaves every image of the store, the moving and
  the fixed image among them, and every parameter vector as they were.
\<close>

theorem apply_transform_frame:
  assumes "valid_args s moving_image fixed_image transform_params"
    and "apply_transform s moving_image fixed_image transform_params = Inr (reg, s')"
  shows "reg = length (images s) \<and> reg \<noteq> moving_image \<and> reg \<noteq> fixed_image \<and>
         length (images s') = length (images s) + 1 \<and>
         (\<forall>a<length (images s). images s' ! a = images s ! a) \<and>
         images s' ! moving_image = images s ! moving_image \<and>
         images s' ! fixed_image = images s ! fixed_image \<and>
         arrays s' = arrays s"
  using assms by (auto simp: apply_transform_Inr_iff valid_args_def nth_append)

text \<open>The example store after the call: a third image, the first two as before.\<close>

theorem apply_transform_frame_witness:
  "valid_args example_store 0 1 0 \<and>
   (\<exists>reg s'. apply_transform example_store 0 1 0 = Inr (reg, s') \<and> reg = 2 \<and>
      images s' ! 0 = two_slice_image \<and> images s' ! 1 = wide_sample_image \<and>
      arrays s' = [[0, 0, 0, 0, 0, 1]])"
proof -
  have v: "valid_args example_store 0 1 0"
    by (simp add: valid_args_def example_store_def)
  obtain reg s' where a: "apply_transform example_store 0 1 0 = Inr (reg, s')"
    by (simp add: apply_transform_Inr_iff example_store_def SetParameters_def)
  from apply_transform_frame [OF v a] v a show ?thesis
    by (simp add: example_store_def)
qed

subsection \<open>Errors while reading the metadata\<close>

text \<open>
  \<open>positions_from_ometif\<close> returns only when the descriptor has the entries \<open>OME\<close> and
  \<open>Image\<close> and every tile has its two stage coordinates and the position of its first
  plane; the result then has one row for each tile. A missing entry is the error of the
  failed lookup.
\<close>

lemma position_rows_complete:
  "position_rows positions acc = Inr rows \<Longrightarrow>
   \<exists>new. rows = acc @ new \<and> length new = length positions \<and>
         (\<forall>n<length positions. position_row (positions ! n) = Inr (new ! n))"
proof (induction positions arbitrary: acc)
  case Nil
  then show ?case by simp
next
  case (Cons position rest)
  from Cons.prems obtain row where row: "position_row position = Inr row"
    and rest: "position_rows rest (acc @ [row]) = Inr rows"
    by (auto simp: bind_err_Inr_iff)
  from Cons.IH [OF rest] obtain new where new: "rows = (acc @ [row]) @ new"
    "length new = length rest" "\<forall>n<length rest. position_row (rest ! n) = Inr (new ! n)"
    by blast
  show ?case
  proof (intro exI [of _ "row # new"] conjI allI impI)
    show "rows = acc @ row # new" using new(1) by simp
    show "length (row # new) = length (position # rest)" using new(2) by simp
    fix n assume "n < length (position # rest)"
    then show "position_row ((position # rest) ! n) = Inr ((row # new) ! n)"
      using row new(3) by (cases n) simp_all
  qed
qed

lemma positions_from_ometif_complete:
  assumes "positions_from_ometif GetMetaData xml2dict file_path = Inr rows"
  shows "\<exists>raw_info info ome image positions.
           GetMetaData file_path = Inr raw_info \<and> xml2dict raw_info = Inr info \<and>
           getitem_str info ''OME'' = Inr ome \<and> getitem_str ome ''Image'' = Inr image \<and>
           py_iter image = Inr positions \<and> length rows = length positions \<and>
           (\<forall>n<length positions. position_row (positions ! n) = Inr (rows ! n))"
  using assms
  by (auto simp: positions_from_ometif_def bind_err_Inr_iff split: if_splits
      dest!: position_rows_complete)

text \<open>
  \<open>get_xy_origin\<close> returns an array of numbers only when the list that
  \<open>clean_position_text\<close> hands over is not empty and holds numbers only. What
  \<open>clean_position_text\<close> does with a malformed entry of the file is decided in its own
  package.
\<close>

lemma plain_number:
  "py_scalar v \<Longrightarrow> \<not> py_object v \<Longrightarrow> \<not> py_string v \<Longrightarrow> py_number v \<noteq> None"
  by (cases v) simp_all

lemma scalar_leaves: "list_all py_scalar vs \<Longrightarrow> concat (map py_leaves vs) = vs"
proof (induction vs)
  case Nil
  then show ?case by simp
next
  case (Cons v vs)
  then have "py_leaves v = [v]" by (cases v) simp_all
  with Cons show ?case by simp
qed

lemma np_min_axis0_numeric:
  assumes "np_min_axis0 rows = Inr (NumArray t vs)"
  shows "rows \<noteq> [] \<and> list_all (list_all (\<lambda>v. py_number v \<noteq> None)) rows"
proof (cases rows)
  case Nil
  with assms show ?thesis by (simp add: np_min_axis0_def)
next
  case (Cons r rs)
  let ?leaves = "concat (map py_leaves (concat rows))"
  from assms Cons have sc: "list_all py_scalar (concat rows)"
    and ob: "\<not> list_ex py_object ?leaves" and st: "\<not> list_ex py_string ?leaves"
    by (auto simp: np_min_axis0_def Let_def split: if_splits)
  have "?leaves = concat rows" using sc by (rule scalar_leaves)
  with sc ob st have "list_all (\<lambda>v. py_number v \<noteq> None) (concat rows)"
    using plain_number by (fastforce simp: list_all_iff list_ex_iff)
  then show ?thesis using Cons by (auto simp: list_all_iff)
qed

lemma get_xy_origin_numeric:
  assumes "get_xy_origin read_json clean_position_text pl_path = Inr (NumArray t vs)"
  shows "\<exists>raw_pos_list pos_list labels.
           read_json pl_path = Inr raw_pos_list \<and>
           clean_position_text raw_pos_list = Inr (pos_list, labels) \<and>
           pos_list \<noteq> [] \<and> list_all (list_all (\<lambda>v. py_number v \<noteq> None)) pos_list"
proof -
  from assms obtain raw_pos_list cleaned where
    r: "read_json pl_path = Inr raw_pos_list" and
    c: "clean_position_text raw_pos_list = Inr cleaned" and
    m: "np_min_axis0 (fst cleaned) = Inr (NumArray t vs)"
    by (auto simp: get_xy_origin_def bind_err_Inr_iff Let_def)
  from np_min_axis0_numeric [OF m] r c show ?thesis
    by (cases cleaned) auto
qed

end
